theory Spec2Isabelle
  imports Main "HOL-Library.Sublist"
begin

section \<open>Values of the workflow summarizer\<close>

text \<open>
  The summarizer (\<^verbatim>\<open>workflow_summarizer_mcp.py\<close>, function \<^verbatim>\<open>summarize_workflow\<close>) works on
  whatever \<^verbatim>\<open>json.load\<close> returns. A decoded JSON value is modelled by \<open>json\<close>; a Python
  \<^verbatim>\<open>dict\<close> is an association list in insertion order. Two restrictions of the model:
  a Python string is a HOL \<open>string\<close>, so its characters are the code points below 256, and
  JSON numbers are integers (floating-point numbers are left out).
\<close>

datatype json =
    JNull
  | JBool bool
  | JInt int
  | JStr string
  | JArr "json list"
  | JObj "(string \<times> json) list"

text \<open>
  Exceptions. \<open>AttributeError\<close> and \<open>TypeError\<close> are raised by the interpreter when a value
  has the wrong shape (\<^verbatim>\<open>.get\<close> on a list, \<^verbatim>\<open>len\<close> of a number, an unhashable key).
  \<open>KeyError\<close> is a missing dictionary key. \<open>External msg\<close> is an exception raised by
  a collaborator (file system, JSON decoder), with its text.
\<close>

datatype py_error = AttributeError | TypeError | KeyError | External string

subsection \<open>Dictionaries\<close>

text \<open>\<^verbatim>\<open>d.get(k, default)\<close> on a dict.\<close>

definition dict_get :: "('k \<times> 'v) list \<Rightarrow> 'k \<Rightarrow> 'v \<Rightarrow> 'v" where
  "dict_get d k dflt = (case map_of d k of None \<Rightarrow> dflt | Some v \<Rightarrow> v)"

text \<open>\<^verbatim>\<open>d[k] = v\<close>: an existing key keeps its place, a new key goes to the end.\<close>

fun dict_set :: "('k \<times> 'v) list \<Rightarrow> 'k \<Rightarrow> 'v \<Rightarrow> ('k \<times> 'v) list" where
  "dict_set [] k v = [(k, v)]"
| "dict_set ((k', v') # d) k v =
     (if k' = k then (k, v) # d else (k', v') # dict_set d k v)"

text \<open>\<^verbatim>\<open>if k in d: del d[k]\<close>.\<close>

definition dict_del :: "('k \<times> 'v) list \<Rightarrow> 'k \<Rightarrow> ('k \<times> 'v) list" where
  "dict_del d k = filter (\<lambda>kv. fst kv \<noteq> k) d"

text \<open>\<^verbatim>\<open>x.get(k, default)\<close> on any value: only a dict has the method.\<close>

definition py_get :: "json \<Rightarrow> string \<Rightarrow> json \<Rightarrow> py_error + json" where
  "py_get x k dflt =
     (case x of JObj d \<Rightarrow> Inr (dict_get d k dflt) | _ \<Rightarrow> Inl AttributeError)"

text \<open>\<^verbatim>\<open>len(x)\<close>, and the items a \<^verbatim>\<open>for\<close> loop over \<open>x\<close> visits.\<close>

definition py_len :: "json \<Rightarrow> py_error + nat" where
  "py_len x =
     (case x of
        JStr s \<Rightarrow> Inr (length s)
      | JArr xs \<Rightarrow> Inr (length xs)
      | JObj d \<Rightarrow> Inr (length d)
      | _ \<Rightarrow> Inl TypeError)"

definition py_iter :: "json \<Rightarrow> py_error + json list" where
  "py_iter x =
     (case x of
        JStr s \<Rightarrow> Inr (map (\<lambda>c. JStr [c]) s)
      | JArr xs \<Rightarrow> Inr xs
      | JObj d \<Rightarrow> Inr (map (\<lambda>kv. JStr (fst kv)) d)
      | _ \<Rightarrow> Inl TypeError)"

text \<open>Truth value of a value in a condition.\<close>

definition truthy :: "json \<Rightarrow> bool" where
  "truthy x =
     (case x of
        JNull \<Rightarrow> False
      | JBool b \<Rightarrow> b
      | JInt i \<Rightarrow> i \<noteq> 0
      | JStr s \<Rightarrow> s \<noteq> []
      | JArr xs \<Rightarrow> xs \<noteq> []
      | JObj d \<Rightarrow> d \<noteq> [])"

text \<open>A list or a dict cannot be a dictionary key.\<close>

definition hashable :: "json \<Rightarrow> bool" where
  "hashable x = (case x of JArr _ \<Rightarrow> False | JObj _ \<Rightarrow> False | _ \<Rightarrow> True)"

subsection \<open>Strings\<close>

text \<open>
  \<^verbatim>\<open>str.lower\<close> on the code points below 256: the ASCII capitals and the Latin-1 capitals
  (192 to 222 without the multiplication sign 215) move up by 32.
\<close>

definition lower_char :: "char \<Rightarrow> char" where
  "lower_char c =
     (let n = (of_char c :: nat)
      in if (65 \<le> n \<and> n \<le> 90) \<or> (192 \<le> n \<and> n \<le> 222 \<and> n \<noteq> 215)
         then char_of (n + 32) else c)"

definition lower :: "string \<Rightarrow> string" where
  "lower s = map lower_char s"

text \<open>\<^verbatim>\<open>x.lower()\<close> on any value: only a string has the method.\<close>

definition py_lower :: "json \<Rightarrow> py_error + string" where
  "py_lower x = (case x of JStr s \<Rightarrow> Inr (lower s) | _ \<Rightarrow> Inl AttributeError)"

text \<open>
  \<^verbatim>\<open>k in s\<close> for two strings is containment as a contiguous substring, which is
  \<^const>\<open>sublist\<close> of the library.
\<close>

section \<open>Node classifier (lines 56 to 81)\<close>

text \<open>
  The loop \<^verbatim>\<open>for node in nodes: node_types[node_type] = node_types.get(node_type, 0) + 1\<close>
  with \<^verbatim>\<open>node_type = node.get("type", "unknown")\<close>. The histogram keeps the order in which
  the types first occur. Keys are compared with HOL equality; Python also identifies
  \<^verbatim>\<open>True\<close> with \<^verbatim>\<open>1\<close> and \<^verbatim>\<open>False\<close> with \<^verbatim>\<open>0\<close> as keys, which makes no difference to a
  caller, since a histogram with a key that is not a string makes the sums below raise.
\<close>

fun count_types :: "json list \<Rightarrow> (json \<times> nat) list \<Rightarrow> py_error + (json \<times> nat) list" where
  "count_types [] node_types = Inr node_types"
| "count_types (node # nodes) node_types =
     (case py_get node ''type'' (JStr ''unknown'') of
        Inl e \<Rightarrow> Inl e
      | Inr node_type \<Rightarrow>
          if hashable node_type
          then count_types nodes
                 (dict_set node_types node_type (dict_get node_types node_type 0 + 1))
          else Inl TypeError)"

text \<open>The two conditions of the generator expressions, on the lowered type string.\<close>

definition ai_match :: "string \<Rightarrow> bool" where
  "ai_match l \<longleftrightarrow>
     sublist ''openai'' l \<or> sublist ''ai'' l \<or> sublist ''gpt'' l \<or> sublist ''llm'' l
     \<or> sublist ''agent'' l \<or> sublist ''anthropic'' l \<or> sublist ''langchain'' l"

definition db_match :: "string \<Rightarrow> bool" where
  "db_match l \<longleftrightarrow>
     sublist ''postgres'' l \<or> sublist ''mysql'' l \<or> sublist ''database'' l
     \<or> sublist ''sql'' l \<or> sublist ''mongo'' l \<or> sublist ''supabase'' l"

text \<open>
  \<^verbatim>\<open>sum(count for type_, count in node_types.items() if cond(type_.lower()))\<close>. The first
  disjunct of each condition calls \<^verbatim>\<open>type_.lower()\<close>, so every key is lowered, and a key
  that is not a string raises.
\<close>

fun sum_counts :: "(string \<Rightarrow> bool) \<Rightarrow> (json \<times> nat) list \<Rightarrow> py_error + nat" where
  "sum_counts cond [] = Inr 0"
| "sum_counts cond ((ty, count) # items) =
     (case py_lower ty of
        Inl e \<Rightarrow> Inl e
      | Inr l \<Rightarrow>
          (case sum_counts cond items of
             Inl e \<Rightarrow> Inl e
           | Inr s \<Rightarrow> Inr ((if cond l then count else 0) + s)))"

definition ai_nodes :: "(json \<times> nat) list \<Rightarrow> py_error + nat" where
  "ai_nodes node_types = sum_counts ai_match node_types"

definition db_nodes :: "(json \<times> nat) list \<Rightarrow> py_error + nat" where
  "db_nodes node_types = sum_counts db_match node_types"

section \<open>Sequencing statements that may raise\<close>

text \<open>\<open>and_then m f\<close> runs \<open>f\<close> on the value of \<open>m\<close>, unless \<open>m\<close> raised.\<close>

definition and_then :: "py_error + 'a \<Rightarrow> ('a \<Rightarrow> py_error + 'b) \<Rightarrow> py_error + 'b" where
  "and_then m f = (case m of Inl e \<Rightarrow> Inl e | Inr x \<Rightarrow> f x)"

section \<open>Prompt extractor (lines 86 to 99)\<close>

text \<open>
  The condition
  \<^verbatim>\<open>"agent" in node.get("type", "").lower() or "openai" in node.get("type", "").lower()\<close>.
\<close>

definition is_agent_node :: "json \<Rightarrow> py_error + bool" where
  "is_agent_node node =
     and_then (py_get node ''type'' (JStr [])) (\<lambda>ty.
     and_then (py_lower ty) (\<lambda>l.
     Inr (sublist ''agent'' l \<or> sublist ''openai'' l)))"

text \<open>The condition \<^verbatim>\<open>p and len(p) > 10\<close>: \<^verbatim>\<open>len\<close> is only called on a truthy value.\<close>

definition long_prompt :: "json \<Rightarrow> py_error + bool" where
  "long_prompt p =
     (if truthy p then and_then (py_len p) (\<lambda>n. Inr (10 < n)) else Inr False)"

fun extract_prompts ::
  "json list \<Rightarrow> json list \<Rightarrow> json list \<Rightarrow> py_error + (json list \<times> json list)" where
  "extract_prompts [] user_prompts system_prompts = Inr (user_prompts, system_prompts)"
| "extract_prompts (node # nodes) user_prompts system_prompts =
     and_then (is_agent_node node) (\<lambda>agent.
     if agent then
       and_then (py_get node ''parameters'' (JObj [])) (\<lambda>parameters.
       and_then (py_get parameters ''systemPrompt'' (JStr [])) (\<lambda>system_prompt.
       and_then (py_get parameters ''text'' (JStr [])) (\<lambda>user_prompt.
       and_then (long_prompt system_prompt) (\<lambda>keep_system.
       and_then (long_prompt user_prompt) (\<lambda>keep_user.
       extract_prompts nodes
         (if keep_user then user_prompts @ [user_prompt] else user_prompts)
         (if keep_system then system_prompts @ [system_prompt] else system_prompts))))))
     else extract_prompts nodes user_prompts system_prompts)"

section \<open>Serialisation (\<^verbatim>\<open>json.dumps\<close> with its default arguments)\<close>

text \<open>
  The size estimate of the reducer is the length of \<^verbatim>\<open>json.dumps(workflow_json)\<close>: item
  separator comma and space, key separator colon and space, \<^verbatim>\<open>ensure_ascii=True\<close>. In a
  string, the quote and the backslash get a backslash, backspace, form feed, newline,
  carriage return and tab their letter, and every other character outside space to tilde
  becomes a backslash, the letter u and four lower-case hexadecimal digits.
\<close>

definition hex_digit :: "nat \<Rightarrow> char" where
  "hex_digit n = (if n < 10 then char_of (48 + n) else char_of (87 + n))"

definition escape_char :: "char \<Rightarrow> string" where
  "escape_char c =
     (let n = (of_char c :: nat)
      in if n = 34 then [CHR 0x5C, CHR 0x22]
         else if n = 92 then [CHR 0x5C, CHR 0x5C]
         else if n = 8 then [CHR 0x5C, CHR ''b'']
         else if n = 12 then [CHR 0x5C, CHR ''f'']
         else if n = 10 then [CHR 0x5C, CHR ''n'']
         else if n = 13 then [CHR 0x5C, CHR ''r'']
         else if n = 9 then [CHR 0x5C, CHR ''t'']
         else if 32 \<le> n \<and> n \<le> 126 then [c]
         else [CHR 0x5C, CHR ''u'', CHR ''0'', CHR ''0'',
               hex_digit (n div 16), hex_digit (n mod 16)])"

definition dumps_str :: "string \<Rightarrow> string" where
  "dumps_str s = [CHR 0x22] @ concat (map escape_char s) @ [CHR 0x22]"

function str_nat :: "nat \<Rightarrow> string" where
  "str_nat n =
     (if n < 10 then [char_of (48 + n)]
      else str_nat (n div 10) @ [char_of (48 + n mod 10)])"
  by pat_completeness auto
termination
  by (relation "measure id") auto

definition str_int :: "int \<Rightarrow> string" where
  "str_int i = (if i < 0 then CHR ''-'' # str_nat (nat (- i)) else str_nat (nat i))"

fun join :: "string \<Rightarrow> string list \<Rightarrow> string" where
  "join sep [] = []"
| "join sep [x] = x"
| "join sep (x # y # ys) = x @ sep @ join sep (y # ys)"

primrec json_dumps :: "json \<Rightarrow> string" where
  "json_dumps JNull = ''null''"
| "json_dumps (JBool b) = (if b then ''true'' else ''false'')"
| "json_dumps (JInt i) = str_int i"
| "json_dumps (JStr s) = dumps_str s"
| "json_dumps (JArr xs) = ''['' @ join '', '' (map json_dumps xs) @ '']''"
| "json_dumps (JObj d) =
     ''{'' @ join '', '' (map (\<lambda>kv. dumps_str (fst kv) @ '': '' @ snd kv)
                             (map (map_prod id json_dumps) d)) @ ''}''"

section \<open>Size reducer (lines 119 to 171)\<close>

text \<open>\<^verbatim>\<open>estimated_tokens = len(json.dumps(workflow_json)) // 4\<close>.\<close>

definition estimated_tokens :: "json \<Rightarrow> nat" where
  "estimated_tokens workflow_json = length (json_dumps workflow_json) div 4"

text \<open>
  \<^verbatim>\<open>param in parameters\<close> and \<^verbatim>\<open>parameters[param]\<close> for a string \<open>param\<close>. On a dict they
  test and read a key. On a list \<^verbatim>\<open>in\<close> tests membership, on a string containment, and
  indexing either with a string raises.
\<close>

definition py_contains :: "json \<Rightarrow> string \<Rightarrow> py_error + bool" where
  "py_contains x k =
     (case x of
        JObj d \<Rightarrow> Inr (k \<in> set (map fst d))
      | JArr xs \<Rightarrow> Inr (JStr k \<in> set xs)
      | JStr s \<Rightarrow> Inr (sublist k s)
      | _ \<Rightarrow> Inl TypeError)"

definition py_getitem :: "json \<Rightarrow> string \<Rightarrow> py_error + json" where
  "py_getitem x k =
     (case x of
        JObj d \<Rightarrow> (case map_of d k of None \<Rightarrow> Inl KeyError | Some v \<Rightarrow> Inr v)
      | _ \<Rightarrow> Inl TypeError)"

definition important_params :: "string list" where
  "important_params = [''text'', ''systemPrompt'', ''operation'', ''table'', ''query'']"

text \<open>
  The loop \<^verbatim>\<open>for param in important_params: if param in parameters: ...\<close>; \<open>kept\<close> is
  \<^verbatim>\<open>simplified_node["parameters"]\<close>.
\<close>

fun keep_params ::
  "json \<Rightarrow> string list \<Rightarrow> (string \<times> json) list \<Rightarrow> py_error + (string \<times> json) list" where
  "keep_params parameters [] kept = Inr kept"
| "keep_params parameters (param # params) kept =
     and_then (py_contains parameters param) (\<lambda>present.
     if present then
       and_then (py_getitem parameters param) (\<lambda>v.
       keep_params parameters params (dict_set kept param v))
     else keep_params parameters params kept)"

text \<open>The body of the loop over the nodes: one \<^verbatim>\<open>simplified_node\<close>.\<close>

definition simplify_node :: "json \<Rightarrow> py_error + json" where
  "simplify_node node =
     and_then (py_get node ''name'' (JStr [])) (\<lambda>name.
     and_then (py_get node ''type'' (JStr [])) (\<lambda>ty.
     and_then (py_get node ''position'' (JArr [])) (\<lambda>position.
     and_then (py_get node ''parameters'' (JObj [])) (\<lambda>parameters.
     and_then (keep_params parameters important_params []) (\<lambda>kept.
     Inr (JObj [(''name'', name), (''type'', ty),
                (''parameters'', JObj kept), (''position'', position)]))))))"

fun simplify_nodes :: "json list \<Rightarrow> py_error + json list" where
  "simplify_nodes [] = Inr []"
| "simplify_nodes (node # nodes) =
     and_then (simplify_node node) (\<lambda>simplified_node.
     and_then (simplify_nodes nodes) (\<lambda>simplified_nodes.
     Inr (simplified_node # simplified_nodes)))"

definition keys_to_remove :: "string list" where
  "keys_to_remove = [''pinData'', ''connections'', ''settings'', ''staticData'']"

text \<open>
  The branch taken when the estimate is over the threshold: \<open>workflow\<close> is the copy of the
  top-level dict, \<open>nodes\<close> the items of its node list.
\<close>

definition simplify_workflow ::
  "(string \<times> json) list \<Rightarrow> json list \<Rightarrow> py_error + (string \<times> json) list" where
  "simplify_workflow workflow nodes =
     and_then (simplify_nodes nodes) (\<lambda>simplified_nodes.
     Inr (fold (\<lambda>key d. dict_del d key) keys_to_remove
            (dict_set workflow ''nodes'' (JArr simplified_nodes))))"

text \<open>
  \<^verbatim>\<open>simplified_workflow = workflow_json.copy()\<close>, simplified \<^verbatim>\<open>if estimated_tokens > 12000\<close>.
  After the branch \<^verbatim>\<open>workflow_json\<close> and \<^verbatim>\<open>simplified_workflow\<close> hold equal dicts on either
  path, so one result stands for both.
\<close>

definition size_reducer ::
  "(string \<times> json) list \<Rightarrow> json list \<Rightarrow> py_error + (string \<times> json) list" where
  "size_reducer workflow nodes =
     (if 12000 < estimated_tokens (JObj workflow) then simplify_workflow workflow nodes
      else Inr workflow)"

section \<open>Analysis of the document (lines 51 to 99)\<close>

record analysis =
  workflow_title :: json
  node_items :: "json list"
  node_count :: nat
  node_types :: "(json \<times> nat) list"
  ai_count :: nat
  db_count :: nat
  user_prompts :: "json list"
  system_prompts :: "json list"

definition analyse :: "json \<Rightarrow> py_error + analysis" where
  "analyse workflow_json =
     and_then (py_get workflow_json ''name'' (JStr ''Untitled Workflow'')) (\<lambda>title.
     and_then (py_get workflow_json ''nodes'' (JArr [])) (\<lambda>nodes.
     and_then (py_len nodes) (\<lambda>n.
     and_then (py_iter nodes) (\<lambda>items.
     and_then (count_types items []) (\<lambda>types.
     and_then (ai_nodes types) (\<lambda>ai.
     and_then (db_nodes types) (\<lambda>db.
     and_then (extract_prompts items [] []) (\<lambda>prompts.
     Inr \<lparr>workflow_title = title, node_items = items, node_count = n, node_types = types,
          ai_count = ai, db_count = db,
          user_prompts = fst prompts, system_prompts = snd prompts\<rparr>))))))))"

section \<open>Prompts and requests (lines 173 to 224 and 255 to 287)\<close>

text \<open>
  A prompt is an f-string around the values it embeds; the model keeps the embedded values
  and leaves the fixed text out. \<open>Prompt\<close> is the primary prompt, \<open>FallbackPrompt\<close> the
  shorter one, whose \<^verbatim>\<open>super_simplified\<close> dict has the keys \<^verbatim>\<open>name\<close>, \<^verbatim>\<open>node_count\<close>,
  \<^verbatim>\<open>node_types\<close> and \<^verbatim>\<open>nodes\<close>.
\<close>

record super_simplified =
  ss_name :: json
  ss_node_count :: nat
  ss_node_types :: "(json \<times> nat) list"
  ss_nodes :: json

datatype prompt =
    Prompt json nat "(json \<times> nat) list" nat nat "json list" "json list" json string
  | FallbackPrompt json nat "(json \<times> nat) list" super_simplified string

text \<open>
  The keyword arguments besides \<^verbatim>\<open>model\<close> and \<^verbatim>\<open>messages\<close>: \<^verbatim>\<open>max_completion_tokens\<close>
  for the model \<^verbatim>\<open>o1\<close>, otherwise \<^verbatim>\<open>max_tokens\<close> and \<^verbatim>\<open>temperature\<close> (in tenths).
\<close>

datatype params = MaxCompletionTokens nat | MaxTokens nat nat

record request =
  req_model :: string
  req_prompt :: prompt
  req_params :: params

definition fallback_model :: string where
  "fallback_model = ''gpt-3.5-turbo-16k''"

definition primary_request :: "string \<Rightarrow> analysis \<Rightarrow> json \<Rightarrow> string \<Rightarrow> request" where
  "primary_request model a workflow_json timestamp =
     \<lparr>req_model = model,
      req_prompt = Prompt (workflow_title a) (node_count a) (node_types a) (ai_count a)
                     (db_count a) (user_prompts a) (system_prompts a) workflow_json timestamp,
      req_params = (if model = ''o1'' then MaxCompletionTokens 4000 else MaxTokens 4000 7)\<rparr>"

text \<open>\<^verbatim>\<open>x[:n]\<close>: a list or a string is cut, a dict raises.\<close>

definition py_slice :: "json \<Rightarrow> nat \<Rightarrow> py_error + json" where
  "py_slice x n =
     (case x of
        JArr xs \<Rightarrow> Inr (JArr (take n xs))
      | JStr s \<Rightarrow> Inr (JStr (take n s))
      | _ \<Rightarrow> Inl TypeError)"

text \<open>
  \<^verbatim>\<open>simplified_workflow.get("nodes", [])[:min(20, len(simplified_workflow.get("nodes", [])))]\<close>.
\<close>

definition fallback_nodes :: "(string \<times> json) list \<Rightarrow> py_error + json" where
  "fallback_nodes simplified_workflow =
     (let nodes = dict_get simplified_workflow ''nodes'' (JArr [])
      in and_then (py_len nodes) (\<lambda>n. py_slice nodes (min 20 n)))"

definition fallback_request :: "analysis \<Rightarrow> json \<Rightarrow> string \<Rightarrow> request" where
  "fallback_request a nodes timestamp =
     \<lparr>req_model = fallback_model,
      req_prompt = FallbackPrompt (workflow_title a) (node_count a) (node_types a)
                     \<lparr>ss_name = workflow_title a, ss_node_count = node_count a,
                      ss_node_types = node_types a, ss_nodes = nodes\<rparr> timestamp,
      req_params = MaxTokens 4000 7\<rparr>"

section \<open>The output path (lines 233 and 296)\<close>

text \<open>
  \<^verbatim>\<open>Path(workflow_path).stem + "_summary.md"\<close> for a POSIX path. The name of a path is its
  last component, where empty components and single dots do not count; the stem is the
  name without its last suffix, and a dot at the start or at the end of the name starts no
  suffix (pathlib up to Python 3.13).
\<close>

fun components :: "string \<Rightarrow> string list" where
  "components [] = [[]]"
| "components (c # cs) =
     (if c = CHR ''/'' then [] # components cs
      else (case components cs of [] \<Rightarrow> [[c]] | x # xs \<Rightarrow> (c # x) # xs))"

definition path_parts :: "string \<Rightarrow> string list" where
  "path_parts p = filter (\<lambda>c. c \<noteq> [] \<and> c \<noteq> ''.'') (components p)"

definition path_name :: "string \<Rightarrow> string" where
  "path_name p = (case path_parts p of [] \<Rightarrow> [] | c # cs \<Rightarrow> last (c # cs))"

definition path_stem :: "string \<Rightarrow> string" where
  "path_stem p =
     (let name = path_name p;
          ext = takeWhile (\<lambda>c. c \<noteq> CHR ''.'') (rev name);
          i = length name - length ext - 1
      in if CHR ''.'' \<in> set name \<and> 0 < i \<and> ext \<noteq> [] then take i name else name)"

definition output_path :: "string \<Rightarrow> string" where
  "output_path workflow_path = path_stem workflow_path @ ''_summary.md''"

section \<open>The collaborators and the effects of a run\<close>

text \<open>
  What one invocation gets from outside: the loader's result for a path (lines 38 to 46),
  the environment variable, the clock, the completion API and the file system. The API
  may answer differently on each call, so it sees the requests made before. An API call
  that raises gives \<open>Inl\<close> of the exception's text, a successful one \<open>Inr\<close> of
  \<^verbatim>\<open>response.choices[0].message.content\<close>. The model is the invocation without an observer
  (\<^verbatim>\<open>ctx=None\<close>), as \<^verbatim>\<open>example_usage.py\<close> calls it.

  The statement \<^verbatim>\<open>with open(output_path, "w", encoding="utf-8") as f: f.write(summary)\<close>
  can fail in two places. When \<^verbatim>\<open>open\<close> raises, no file is touched. When \<^verbatim>\<open>open\<close> has
  created or truncated the file and \<^verbatim>\<open>f.write\<close> (or closing the file) raises, the file
  stays, with whatever bytes have reached it. \<open>write_error\<close> tells for a path whether
  and how writing fails; it may change between the attempts.
\<close>

datatype write_failure =
    OpenRaises string
  | WriteRaises string string

text \<open>
  The UTF-8 encoding of a text, with a byte as a \<open>char\<close>: a code point below 128 is one
  byte, a code point from 128 to 255 two bytes.
\<close>

definition utf8_char :: "char \<Rightarrow> string" where
  "utf8_char c =
     (let n = (of_char c :: nat)
      in if n < 128 then [c] else [char_of (192 + n div 64), char_of (128 + n mod 64)])"

definition utf8 :: "string \<Rightarrow> string" where
  "utf8 s = concat (map utf8_char s)"

record world =
  load_workflow :: "string \<Rightarrow> py_error + json"
  api_key :: "string option"
  now :: string
  complete :: "request list \<Rightarrow> request \<Rightarrow> string + string"
  write_error :: "request list \<Rightarrow> string \<Rightarrow> write_failure option"

text \<open>
  The effects of a run: the API calls in their order, and the files written in their
  order, each with the bytes it holds after the write. The content of a file after the run
  is what the last write to it left.
\<close>

record effects =
  calls :: "request list"
  writes :: "(string \<times> string) list"

definition no_effects :: effects where
  "no_effects = \<lparr>calls = [], writes = []\<rparr>"

definition file_content :: "(string \<times> string) list \<Rightarrow> string \<Rightarrow> string option" where
  "file_content ws path = map_of (rev ws) path"

text \<open>
  The body of a \<^verbatim>\<open>try\<close> block: the API call, then the summary saved and returned.
  \<open>Inl msg\<close> is an exception with text \<open>msg\<close> raised inside the block.
\<close>

definition attempt :: "world \<Rightarrow> string \<Rightarrow> request \<Rightarrow> effects \<Rightarrow> (string + string) \<times> effects" where
  "attempt w workflow_path req fx =
     (let fx' = fx\<lparr>calls := calls fx @ [req]\<rparr>
      in case complete w (calls fx) req of
           Inl msg \<Rightarrow> (Inl msg, fx')
         | Inr summary \<Rightarrow>
             (case write_error w (calls fx') (output_path workflow_path) of
                Some (OpenRaises msg) \<Rightarrow> (Inl msg, fx')
              | Some (WriteRaises msg left) \<Rightarrow>
                  (Inl msg, fx'\<lparr>writes := writes fx' @ [(output_path workflow_path, left)]\<rparr>)
              | None \<Rightarrow>
                  (Inr summary,
                   fx'\<lparr>writes := writes fx' @ [(output_path workflow_path, utf8 summary)]\<rparr>)))"

section \<open>The completion client with its fallback (lines 209 to 312)\<close>

definition complete_with_fallback ::
  "world \<Rightarrow> string \<Rightarrow> string \<Rightarrow> analysis \<Rightarrow> (string \<times> json) list \<Rightarrow> (py_error + string) \<times> effects" where
  "complete_with_fallback w workflow_path model a simplified_workflow =
     (case attempt w workflow_path
             (primary_request model a (JObj simplified_workflow) (now w)) no_effects of
        (Inr summary, fx) \<Rightarrow> (Inr summary, fx)
      | (Inl msg, fx) \<Rightarrow>
          (let error_message = ''Error calling OpenAI API: '' @ msg
           in if model \<noteq> fallback_model then
                (case fallback_nodes simplified_workflow of
                   Inl e \<Rightarrow> (Inl e, fx)
                 | Inr nodes \<Rightarrow>
                     (case attempt w workflow_path (fallback_request a nodes (now w)) fx of
                        (Inr summary, fx') \<Rightarrow> (Inr summary, fx')
                      | (Inl fallback_error, fx') \<Rightarrow>
                          (Inr (''Error with fallback model: '' @ fallback_error), fx')))
              else (Inr error_message, fx)))"

section \<open>The operation \<^verbatim>\<open>summarize_workflow\<close>\<close>

text \<open>
  The result is \<open>Inl e\<close> when the call raises \<open>e\<close> and \<open>Inr s\<close> when it returns the string
  \<open>s\<close>, together with the API calls made and the files written.
\<close>

definition summarize_workflow :: "world \<Rightarrow> string \<Rightarrow> string \<Rightarrow> (py_error + string) \<times> effects" where
  "summarize_workflow w workflow_path model =
     (case load_workflow w workflow_path of
        Inl e \<Rightarrow> (Inl e, no_effects)
      | Inr workflow_json \<Rightarrow>
          (case analyse workflow_json of
             Inl e \<Rightarrow> (Inl e, no_effects)
           | Inr a \<Rightarrow>
               if api_key w = None \<or> api_key w = Some []
               then (Inr ''OPENAI_API_KEY environment variable not set'', no_effects)
               else
                 (case workflow_json of
                    JObj workflow \<Rightarrow>
                      (case size_reducer workflow (node_items a) of
                         Inl e \<Rightarrow> (Inl e, no_effects)
                       | Inr simplified_workflow \<Rightarrow>
                           complete_with_fallback w workflow_path model a simplified_workflow)
                  | _ \<Rightarrow> (Inl AttributeError, no_effects))))"

section \<open>Notions of the specification\<close>



definition match_any :: "string list \<Rightarrow> string \<Rightarrow> bool" where
  "match_any keywords l = list_ex (\<lambda>k. sublist k l) keywords"



text \<open>The type under which the classifier files a node.\<close>

definition node_type :: "json \<Rightarrow> json" where
  "node_type node =
     (case node of JObj d \<Rightarrow> dict_get d ''type'' (JStr ''unknown'') | _ \<Rightarrow> JNull)"

text \<open>The keyword sets without \<^verbatim>\<open>openai\<close> and without \<^verbatim>\<open>mysql\<close>.\<close>

definition ai_keywords_short :: "string list" where
  "ai_keywords_short = [''ai'', ''gpt'', ''llm'', ''agent'', ''anthropic'', ''langchain'']"

definition db_keywords_short :: "string list" where
  "db_keywords_short = [''postgres'', ''database'', ''sql'', ''mongo'', ''supabase'']"

text \<open>
  The prompt extractor in the words of the specification: the nodes it inspects, the value
  of a parameter of a node (the empty string when the key or the parameters are absent),
  and the values it keeps, which are truthy and longer than 10. The length of a string is
  its number of characters.
\<close>

definition inspected :: "json \<Rightarrow> bool" where
  "inspected node =
     (case node of
        JObj d \<Rightarrow>
          (case dict_get d ''type'' (JStr []) of
             JStr t \<Rightarrow> sublist ''agent'' (lower t) \<or> sublist ''openai'' (lower t)
           | _ \<Rightarrow> False)
      | _ \<Rightarrow> False)"

definition node_param :: "string \<Rightarrow> json \<Rightarrow> json" where
  "node_param key node =
     (case node of
        JObj d \<Rightarrow>
          (case dict_get d ''parameters'' (JObj []) of
             JObj ps \<Rightarrow> dict_get ps key (JStr [])
           | _ \<Rightarrow> JStr [])
      | _ \<Rightarrow> JStr [])"

definition value_length :: "json \<Rightarrow> nat" where
  "value_length v =
     (case v of JStr s \<Rightarrow> length s | JArr xs \<Rightarrow> length xs | JObj d \<Rightarrow> length d | _ \<Rightarrow> 0)"

definition qualifies :: "json \<Rightarrow> bool" where
  "qualifies v \<longleftrightarrow> truthy v \<and> 10 < value_length v"

text \<open>
  The reduced node in the words of the specification: the four fields, with the parameters
  cut down to the whitelisted keys that the node has.
\<close>

definition node_field :: "string \<Rightarrow> json \<Rightarrow> json \<Rightarrow> json" where
  "node_field key dflt node = (case node of JObj d \<Rightarrow> dict_get d key dflt | _ \<Rightarrow> dflt)"

definition node_params :: "json \<Rightarrow> (string \<times> json) list" where
  "node_params node =
     (case node_field ''parameters'' (JObj []) node of JObj ps \<Rightarrow> ps | _ \<Rightarrow> [])"

text \<open>The whitelist of retained parameter keys, as the specification lists it.\<close>

definition whitelist :: "string list" where
  "whitelist = [''text'', ''systemPrompt'', ''operation'', ''table'', ''query'']"

definition whitelisted :: "(string \<times> json) list \<Rightarrow> (string \<times> json) list" where
  "whitelisted ps =
     concat (map (\<lambda>k. case map_of ps k of None \<Rightarrow> [] | Some v \<Rightarrow> [(k, v)]) whitelist)"

definition reduced_node :: "json \<Rightarrow> json" where
  "reduced_node node =
     JObj [(''name'', node_field ''name'' (JStr []) node),
           (''type'', node_field ''type'' (JStr []) node),
           (''parameters'', JObj (whitelisted (node_params node))),
           (''position'', node_field ''position'' (JArr []) node)]"

text \<open>
  The sequence of the specification for one parameter key: the kept values of the inspected
  nodes, in the order of the nodes, repetitions included.
\<close>

definition collected :: "string \<Rightarrow> json list \<Rightarrow> json list" where
  "collected key nodes = filter qualifies (map (node_param key) (filter inspected nodes))"

text \<open>
  The invocation reaches the completion client: the document is loaded and is a dict, its
  analysis and the size reducer do not raise, and the API key is set. \<open>sw\<close> is the
  document after the size reducer.
\<close>

definition reaches_client ::
  "world \<Rightarrow> string \<Rightarrow> (string \<times> json) list \<Rightarrow> analysis \<Rightarrow> (string \<times> json) list \<Rightarrow> bool" where
  "reaches_client w p workflow a sw \<longleftrightarrow>
     load_workflow w p = Inr (JObj workflow) \<and> analyse (JObj workflow) = Inr a
     \<and> api_key w \<noteq> None \<and> api_key w \<noteq> Some []
     \<and> size_reducer workflow (node_items a) = Inr sw"

text \<open>
  The node list of the fallback payload: the first 20 nodes of the document after the size
  reducer, which are reduced nodes only when the estimate was over the threshold.
\<close>

definition fallback_node_list :: "(string \<times> json) list \<Rightarrow> json list \<Rightarrow> json list" where
  "fallback_node_list workflow items =
     take 20 (if 12000 < estimated_tokens (JObj workflow) then map reduced_node items
              else items)"

text \<open>The value under \<^verbatim>\<open>nodes\<close> in the payload of a fallback request.\<close>

definition fallback_payload_nodes :: "request \<Rightarrow> json" where
  "fallback_payload_nodes req =
     (case req_prompt req of FallbackPrompt _ _ _ payload _ \<Rightarrow> ss_nodes payload | _ \<Rightarrow> JNull)"

text \<open>
  Two paths are siblings when they lie in the same directory: both absolute or both
  relative, with the same components before the name.
\<close>

definition path_dir :: "string \<Rightarrow> bool \<times> string list" where
  "path_dir p = (take 1 p = ''/'', butlast (path_parts p))"

definition sibling :: "string \<Rightarrow> string \<Rightarrow> bool" where
  "sibling q p \<longleftrightarrow> path_dir q = path_dir p"

text \<open>A request with the timestamp of its prompt replaced.\<close>

definition with_timestamp :: "string \<Rightarrow> request \<Rightarrow> request" where
  "with_timestamp t req =
     req\<lparr>req_prompt :=
           (case req_prompt req of
              Prompt title n types ai db ups sps doc _ \<Rightarrow> Prompt title n types ai db ups sps doc t
            | FallbackPrompt title n types payload _ \<Rightarrow> FallbackPrompt title n types payload t)\<rparr>"

section \<open>Example inputs\<close>





definition agent_nodes :: "json list" where
  "agent_nodes =
     [JObj [(''type'', JStr ''openAiAgent''),
            (''parameters'',
             JObj [(''systemPrompt'', JStr ''You are a helpful assistant for invoices.''),
                   (''text'', JStr ''0123456789'')])],
      JObj [(''type'', JStr ''n8n-nodes-base.set''),
            (''parameters'', JObj [(''text'', JStr ''a long text in a node that is no agent'')])],
      JObj [(''type'', JStr ''customAGENT''),
            (''parameters'',
             JObj [(''systemPrompt'', JStr ''You are a helpful assistant for invoices.''),
                   (''text'', JStr ''01234567890'')])]]"

definition large_name :: string where
  "large_name = replicate 50000 (CHR ''a'')"

definition large_node :: json where
  "large_node =
     JObj [(''id'', JStr ''7''), (''name'', JStr ''Ask''), (''type'', JStr ''openAi''),
           (''parameters'',
            JObj [(''model'', JStr ''gpt-4''), (''text'', JStr ''hello''),
                  (''systemPrompt'', JStr ''be brief''), (''operation'', JStr ''chat''),
                  (''table'', JStr ''orders''), (''query'', JStr ''select 1''),
                  (''temperature'', JInt 1)]),
           (''position'', JArr [JInt 1, JInt 2])]"

definition large_workflow :: "(string \<times> json) list" where
  "large_workflow =
     [(''name'', JStr large_name), (''pinData'', JObj []),
      (''connections'', JObj [(''Ask'', JObj [])]), (''nodes'', JArr [large_node]),
      (''settings'', JObj [(''timezone'', JStr ''UTC'')]), (''staticData'', JNull),
      (''active'', JBool True)]"

definition large_reduced :: "(string \<times> json) list" where
  "large_reduced =
     [(''name'', JStr large_name),
      (''nodes'',
       JArr [JObj [(''name'', JStr ''Ask''), (''type'', JStr ''openAi''),
                   (''parameters'',
                    JObj [(''text'', JStr ''hello''), (''systemPrompt'', JStr ''be brief''),
                          (''operation'', JStr ''chat''), (''table'', JStr ''orders''),
                          (''query'', JStr ''select 1'')]),
                   (''position'', JArr [JInt 1, JInt 2])]]),
      (''active'', JBool True)]"

text \<open>
  A world whose loader returns \<open>doc\<close> for every path, with the API key set, a fixed clock,
  one scripted answer for the first API call and one for every later call, and a file
  system that takes every write.
\<close>

definition stub_world :: "json \<Rightarrow> string + string \<Rightarrow> string + string \<Rightarrow> world" where
  "stub_world doc primary_answer fallback_answer =
     \<lparr>load_workflow = (\<lambda>p. Inr doc), api_key = Some ''sk-test'',
      now = ''2024-05-01 12:00:00'',
      complete = (\<lambda>earlier req. if earlier = [] then primary_answer else fallback_answer),
      write_error = (\<lambda>earlier path. None)\<rparr>"

definition full_node :: json where
  "full_node =
     JObj [(''id'', JStr ''41''), (''name'', JStr ''Fetch''),
           (''type'', JStr ''n8n-nodes-base.httpRequest''),
           (''parameters'', JObj [(''url'', JStr ''https://example.org'')]),
           (''position'', JArr [JInt 250, JInt 300])]"

definition small_workflow :: "(string \<times> json) list" where
  "small_workflow = [(''name'', JStr ''Demo''), (''nodes'', JArr [full_node])]"

definition small_analysis :: analysis where
  "small_analysis =
     \<lparr>workflow_title = JStr ''Demo'', node_items = [full_node], node_count = 1,
      node_types = [(JStr ''n8n-nodes-base.httpRequest'', 1)],
      ai_count = 0, db_count = 0, user_prompts = [], system_prompts = []\<rparr>"

definition boundary_name :: string where
  "boundary_name = replicate 47973 (CHR ''a'')"

definition boundary_workflow :: "(string \<times> json) list" where
  "boundary_workflow = [(''name'', JStr boundary_name), (''settings'', JObj [])]"

definition many_workflow :: "(string \<times> json) list" where
  "many_workflow = [(''name'', JStr ''Demo''), (''nodes'', JArr (replicate 21 full_node))]"

definition many_analysis :: analysis where
  "many_analysis =
     \<lparr>workflow_title = JStr ''Demo'', node_items = replicate 21 full_node, node_count = 21,
      node_types = [(JStr ''n8n-nodes-base.httpRequest'', 21)],
      ai_count = 0, db_count = 0, user_prompts = [], system_prompts = []\<rparr>"

definition large_analysis :: analysis where
  "large_analysis =
     \<lparr>workflow_title = JStr large_name, node_items = [large_node], node_count = 1,
      node_types = [(JStr ''openAi'', 1)],
      ai_count = 1, db_count = 0, user_prompts = [], system_prompts = []\<rparr>"

definition boundary_analysis :: analysis where
  "boundary_analysis =
     \<lparr>workflow_title = JStr boundary_name, node_items = [], node_count = 0, node_types = [],
      ai_count = 0, db_count = 0, user_prompts = [], system_prompts = []\<rparr>"




text \<open>A summary with a character outside ASCII: a hash, a space and an e with acute.\<close>

definition accent_summary :: string where
  "accent_summary = [CHR ''#'', CHR '' '', CHR 0xE9]"

section \<open>Properties of the classifier\<close>












text \<open>
  C10. On every histogram the AI count is the same with and without the keyword
  \<^verbatim>\<open>openai\<close>, since a string that contains \<^verbatim>\<open>openai\<close> contains \<^verbatim>\<open>ai\<close>, and the database count
  is the same with and without \<^verbatim>\<open>mysql\<close>, since a string that contains \<^verbatim>\<open>mysql\<close> contains
  \<^verbatim>\<open>sql\<close>.
\<close>

theorem keyword_sets_redundant:
  "ai_nodes hist = sum_counts (match_any ai_keywords_short) hist
   \<and> db_nodes hist = sum_counts (match_any db_keywords_short) hist
   \<and> (sublist ''openai'' l \<or> sublist ''ai'' l) = sublist ''ai'' l
   \<and> (sublist ''mysql'' l \<or> sublist ''sql'' l) = sublist ''sql'' l"
proof -
  have ai: "sublist ''ai'' ''openai''" and sql: "sublist ''sql'' ''mysql''"
    by (simp_all add: sublist_Cons_right)
  have openai: "(sublist ''openai'' s \<or> sublist ''ai'' s) = sublist ''ai'' s" for s
    using sublist_order.order_trans [OF ai] by blast
  have mysql: "(sublist ''mysql'' s \<or> sublist ''sql'' s) = sublist ''sql'' s" for s
    using sublist_order.order_trans [OF sql] by blast
  have "ai_match = match_any ai_keywords_short"
    using openai by (auto simp: fun_eq_iff ai_match_def match_any_def ai_keywords_short_def)
  moreover have "db_match = match_any db_keywords_short"
    using mysql by (auto simp: fun_eq_iff db_match_def match_any_def db_keywords_short_def)
  ultimately show ?thesis
    using openai mysql by (simp add: ai_nodes_def db_nodes_def)
qed

section \<open>Properties of the prompt extractor\<close>

lemma long_prompt_qualifies: "long_prompt v = Inr b \<Longrightarrow> b = qualifies v"
  by (auto simp: long_prompt_def qualifies_def value_length_def py_len_def and_then_def
      truthy_def split: json.splits if_splits)

lemma extract_prompts_step:
  assumes "extract_prompts (node # nodes) us ss = Inr r"
  shows "extract_prompts nodes (us @ collected ''text'' [node])
           (ss @ collected ''systemPrompt'' [node]) = Inr r"
proof (cases "is_agent_node node")
  case (Inl e)
  with assms show ?thesis by (simp add: and_then_def)
next
  case (Inr agent)
  then have agent: "agent = inspected node"
    by (auto simp: is_agent_node_def inspected_def py_get_def py_lower_def and_then_def
        split: json.splits)
  show ?thesis
  proof (cases agent)
    case False
    with assms Inr agent show ?thesis by (simp add: and_then_def collected_def)
  next
    case True
    from Inr obtain d where node: "node = JObj d"
      by (cases node) (auto simp: is_agent_node_def py_get_def and_then_def)
    from assms Inr True node obtain ps where ps: "dict_get d ''parameters'' (JObj []) = JObj ps"
      by (cases "dict_get d ''parameters'' (JObj [])") (auto simp: and_then_def py_get_def)
    from assms Inr True node ps obtain ks ku
      where ks: "long_prompt (dict_get ps ''systemPrompt'' (JStr [])) = Inr ks"
        and ku: "long_prompt (dict_get ps ''text'' (JStr [])) = Inr ku"
        and rest: "extract_prompts nodes
                     (if ku then us @ [dict_get ps ''text'' (JStr [])] else us)
                     (if ks then ss @ [dict_get ps ''systemPrompt'' (JStr [])] else ss) = Inr r"
      by (auto simp: and_then_def py_get_def split: sum.splits)
    from True agent node ps long_prompt_qualifies [OF ks] long_prompt_qualifies [OF ku] rest
    show ?thesis
      by (auto simp: collected_def node_param_def split: if_splits)
  qed
qed

lemma extract_prompts_collected:
  "extract_prompts nodes us ss = Inr r \<Longrightarrow>
   r = (us @ collected ''text'' nodes, ss @ collected ''systemPrompt'' nodes)"
proof (induction nodes arbitrary: us ss)
  case Nil
  then show ?case by (simp add: collected_def)
next
  case (Cons node nodes)
  from Cons.IH [OF extract_prompts_step [OF Cons.prems]]
  show ?case by (simp add: collected_def)
qed

text \<open>
  C4. When the extraction does not raise, the system-prompt sequence is the list of the
  \<^verbatim>\<open>systemPrompt\<close> values, and the user-prompt sequence the list of the \<^verbatim>\<open>text\<close> values, of
  exactly the nodes whose lower-case type contains \<^verbatim>\<open>agent\<close> or \<^verbatim>\<open>openai\<close>, restricted to the
  values that are truthy and longer than 10 (an absent value is the empty string, which is
  dropped), in the order of the nodes and without removing repetitions.
\<close>

theorem prompt_extraction:
  assumes "extract_prompts nodes [] [] = Inr (ups, sps)"
  shows "sps = filter qualifies (map (node_param ''systemPrompt'') (filter inspected nodes))
       \<and> ups = filter qualifies (map (node_param ''text'') (filter inspected nodes))"
  using extract_prompts_collected [OF assms] by (simp add: collected_def)

theorem prompt_extraction_witness:
  "extract_prompts agent_nodes [] [] =
     Inr ([JStr ''01234567890''],
          [JStr ''You are a helpful assistant for invoices.'',
           JStr ''You are a helpful assistant for invoices.''])
   \<and> filter qualifies (map (node_param ''systemPrompt'') (filter inspected agent_nodes)) =
       [JStr ''You are a helpful assistant for invoices.'',
        JStr ''You are a helpful assistant for invoices.'']
   \<and> filter qualifies (map (node_param ''text'') (filter inspected agent_nodes)) =
       [JStr ''01234567890'']"
proof -
  have run: "extract_prompts agent_nodes [] [] =
     Inr ([JStr ''01234567890''],
          [JStr ''You are a helpful assistant for invoices.'',
           JStr ''You are a helpful assistant for invoices.''])"
    by code_simp
  from prompt_extraction [OF run] run show ?thesis by simp
qed

section \<open>Properties of the size reducer\<close>

lemma map_of_dict_set: "map_of (dict_set d k v) k' = (if k' = k then Some v else map_of d k')"
  by (induction d) auto

lemma dict_set_absent: "k \<notin> fst ` set d \<Longrightarrow> dict_set d k v = d @ [(k, v)]"
  by (induction d) auto

lemma fold_dict_del:
  "fold (\<lambda>key d. dict_del d key) keys d = filter (\<lambda>kv. fst kv \<notin> set keys) d"
  by (induction keys arbitrary: d) (auto simp: dict_del_def intro: filter_cong)

lemma map_of_filter_keys:
  "map_of (filter (\<lambda>kv. P (fst kv)) d) k = (if P k then map_of d k else None)"
  by (induction d) auto

lemma filter_dict_set_other:
  "\<not> P k \<Longrightarrow> filter (\<lambda>kv. P (fst kv)) (dict_set d k v) = filter (\<lambda>kv. P (fst kv)) d"
  by (induction d) auto

lemma keep_params_dict:
  "distinct params \<Longrightarrow> fst ` set kept \<inter> set params = {} \<Longrightarrow>
   keep_params (JObj ps) params kept =
     Inr (kept @ concat (map (\<lambda>k. case map_of ps k of None \<Rightarrow> [] | Some v \<Rightarrow> [(k, v)]) params))"
proof (induction params arbitrary: kept)
  case Nil
  then show ?case by simp
next
  case (Cons p params)
  show ?case
  proof (cases "map_of ps p")
    case None
    then have "p \<notin> fst ` set ps" by (simp add: map_of_eq_None_iff)
    with Cons None show ?thesis
      by (simp add: and_then_def py_contains_def)
  next
    case (Some v)
    then have "p \<in> fst ` set ps" by (metis map_of_eq_None_iff option.distinct(1))
    moreover from Cons.prems have "p \<notin> fst ` set kept" by auto
    moreover from Cons.prems have "fst ` set (kept @ [(p, v)]) \<inter> set params = {}" by auto
    ultimately show ?thesis using Cons.IH [of "kept @ [(p, v)]"] Cons.prems Some
      by (simp add: and_then_def py_contains_def py_getitem_def dict_set_absent)
  qed
qed

lemma keep_params_other:
  "keep_params parameters params kept = Inr kept' \<Longrightarrow> \<forall>ps. parameters \<noteq> JObj ps \<Longrightarrow>
   kept' = kept"
proof (induction params arbitrary: kept)
  case Nil
  then show ?case by simp
next
  case (Cons p params)
  then show ?case
    by (cases parameters)
       (auto simp: and_then_def py_contains_def py_getitem_def split: if_splits)
qed

lemma simplify_node_reduced:
  assumes "simplify_node node = Inr sn"
  shows "sn = reduced_node node"
proof -
  from assms obtain d where node: "node = JObj d"
    by (cases node) (auto simp: simplify_node_def py_get_def and_then_def)
  let ?p = "dict_get d ''parameters'' (JObj [])"
  from assms node obtain kept
    where kept: "keep_params ?p important_params [] = Inr kept"
      and sn: "sn = JObj [(''name'', dict_get d ''name'' (JStr [])),
                          (''type'', dict_get d ''type'' (JStr [])),
                          (''parameters'', JObj kept),
                          (''position'', dict_get d ''position'' (JArr []))]"
    by (auto simp: simplify_node_def py_get_def and_then_def split: sum.splits)
  have "kept = whitelisted (node_params node)"
  proof (cases "\<exists>ps. ?p = JObj ps")
    case True
    then obtain ps where ps: "?p = JObj ps" by blast
    have "distinct important_params" by (simp add: important_params_def)
    from keep_params_dict [OF this, of "[]" ps] kept ps
    show ?thesis
      by (simp add: whitelisted_def whitelist_def important_params_def node_params_def
          node_field_def node)
  next
    case False
    then have "kept = []" using keep_params_other [OF kept] by blast
    moreover from False have "node_params node = []"
      by (cases ?p) (auto simp: node_params_def node_field_def node)
    ultimately show ?thesis by (simp add: whitelisted_def whitelist_def)
  qed
  with sn node show ?thesis by (simp add: reduced_node_def node_field_def)
qed

lemma simplify_nodes_reduced: "simplify_nodes nodes = Inr ns \<Longrightarrow> ns = map reduced_node nodes"
proof (induction nodes arbitrary: ns)
  case Nil
  then show ?case by simp
next
  case (Cons node nodes)
  then show ?case
    by (auto simp: and_then_def split: sum.splits dest: simplify_node_reduced)
qed

lemma map_of_whitelisted:
  "map_of (whitelisted ps) k = (if k \<in> set whitelist then map_of ps k else None)"
  by (auto simp: whitelisted_def whitelist_def split: option.splits)

lemma simplify_workflow_filter:
  "simplify_workflow workflow nodes = Inr r \<Longrightarrow>
   r = filter (\<lambda>kv. fst kv \<notin> set keys_to_remove)
         (dict_set workflow ''nodes'' (JArr (map reduced_node nodes)))"
  by (auto simp: simplify_workflow_def and_then_def fold_dict_del split: sum.splits
      dest: simplify_nodes_reduced)

lemma escape_plain: "concat (map escape_char (replicate n (CHR ''a''))) = replicate n (CHR ''a'')"
  by (induction n) (simp_all add: escape_char_def)

lemma length_large: "length (json_dumps (JObj large_workflow)) = 50359"
  by (simp add: large_workflow_def large_name_def large_node_def dumps_str_def escape_plain
      escape_char_def str_int_def)

lemma est_large: "12000 < estimated_tokens (JObj large_workflow)"
  by (simp only: estimated_tokens_def length_large)

lemma nodes_large:
  "simplify_nodes [large_node] =
     Inr [JObj [(''name'', JStr ''Ask''), (''type'', JStr ''openAi''),
                (''parameters'',
                 JObj [(''text'', JStr ''hello''), (''systemPrompt'', JStr ''be brief''),
                       (''operation'', JStr ''chat''), (''table'', JStr ''orders''),
                       (''query'', JStr ''select 1'')]),
                (''position'', JArr [JInt 1, JInt 2])]]"
  by code_simp

lemma red_large: "size_reducer large_workflow [large_node] = Inr large_reduced"
proof -
  have "simplify_workflow large_workflow [large_node] = Inr large_reduced"
    unfolding simplify_workflow_def nodes_large
    by (simp add: and_then_def large_workflow_def large_reduced_def keys_to_remove_def
        dict_del_def)
  with est_large show ?thesis by (simp add: size_reducer_def)
qed

text \<open>
  C5. When the reduction is triggered and does not raise, the reduced document has none of
  the keys \<^verbatim>\<open>pinData\<close>, \<^verbatim>\<open>connections\<close>, \<^verbatim>\<open>settings\<close>, \<^verbatim>\<open>staticData\<close>; every other key apart
  from \<^verbatim>\<open>nodes\<close> keeps its value, and the entries of these keys keep their order; under
  \<^verbatim>\<open>nodes\<close> it has the list of the reduced nodes, each with exactly the fields name, type,
  parameters and position, where the parameters are the keys among \<^verbatim>\<open>text\<close>,
  \<^verbatim>\<open>systemPrompt\<close>, \<^verbatim>\<open>operation\<close>, \<^verbatim>\<open>table\<close>, \<^verbatim>\<open>query\<close> that the original parameters have,
  with their original values.
\<close>

theorem reduction_frame:
  assumes "size_reducer workflow nodes = Inr r"
    and "12000 < estimated_tokens (JObj workflow)"
  shows "map_of r ''pinData'' = None \<and> map_of r ''connections'' = None
       \<and> map_of r ''settings'' = None \<and> map_of r ''staticData'' = None
       \<and> (k \<notin> {''pinData'', ''connections'', ''settings'', ''staticData'', ''nodes''} \<longrightarrow>
            map_of r k = map_of workflow k)
       \<and> filter (\<lambda>kv. fst kv \<notin> {''pinData'', ''connections'', ''settings'', ''staticData'',
                                   ''nodes''}) r =
           filter (\<lambda>kv. fst kv \<notin> {''pinData'', ''connections'', ''settings'', ''staticData'',
                                   ''nodes''}) workflow
       \<and> map_of r ''nodes'' = Some (JArr (map reduced_node nodes))
       \<and> map_of (whitelisted ps) k' =
           (if k' \<in> {''text'', ''systemPrompt'', ''operation'', ''table'', ''query''}
            then map_of ps k' else None)"
proof -
  from assms have "simplify_workflow workflow nodes = Inr r"
    by (simp add: size_reducer_def)
  note r = simplify_workflow_filter [OF this]
  have ks: "set keys_to_remove = {''pinData'', ''connections'', ''settings'', ''staticData''}"
    by (simp add: keys_to_remove_def)
  have gone: "map_of r key = None" if "key \<in> set keys_to_remove" for key
    using that by (simp add: r map_of_filter_keys [of "\<lambda>k. k \<notin> set keys_to_remove"])
  have c1: "map_of r ''pinData'' = None" and c2: "map_of r ''connections'' = None"
    and c3: "map_of r ''settings'' = None" and c4: "map_of r ''staticData'' = None"
    by (rule gone, simp add: ks)+
  have kept: "map_of r key = map_of workflow key"
    if "key \<notin> set keys_to_remove" and "key \<noteq> ''nodes''" for key
    using that
    by (simp add: r map_of_filter_keys [of "\<lambda>k. k \<notin> set keys_to_remove"] map_of_dict_set)
  have c5: "k \<notin> {''pinData'', ''connections'', ''settings'', ''staticData'', ''nodes''} \<longrightarrow>
            map_of r k = map_of workflow k"
    using kept [of k] by (simp add: ks)
  let ?Q = "\<lambda>kv::string \<times> json. fst kv \<notin> set keys_to_remove \<and> fst kv \<noteq> ''nodes''"
  let ?L = "\<lambda>kv::string \<times> json.
              fst kv \<notin> {''pinData'', ''connections'', ''settings'', ''staticData'', ''nodes''}"
  have same: "?Q = ?L"
    by (auto simp: ks)
  have "filter ?Q r = filter ?Q (dict_set workflow ''nodes'' (JArr (map reduced_node nodes)))"
    by (auto simp: r intro: filter_cong)
  also have "\<dots> = filter ?Q workflow"
    using filter_dict_set_other
      [of "\<lambda>k. k \<notin> set keys_to_remove \<and> k \<noteq> ''nodes''" "''nodes''" workflow]
    by simp
  finally have "filter ?Q r = filter ?Q workflow" .
  then have c6: "filter ?L r = filter ?L workflow"
    by (simp only: same)
  have "''nodes'' \<notin> set keys_to_remove"
    by (simp add: keys_to_remove_def)
  then have c7: "map_of r ''nodes'' = Some (JArr (map reduced_node nodes))"
    by (simp add: r map_of_filter_keys [of "\<lambda>k. k \<notin> set keys_to_remove"] map_of_dict_set)
  have c8: "map_of (whitelisted ps) k' =
           (if k' \<in> {''text'', ''systemPrompt'', ''operation'', ''table'', ''query''}
            then map_of ps k' else None)"
    by (simp add: map_of_whitelisted whitelist_def)
  from c1 c2 c3 c4 c5 c6 c7 c8 show ?thesis
    by blast
qed

theorem reduction_frame_witness:
  "size_reducer large_workflow [large_node] = Inr large_reduced
   \<and> 12000 < estimated_tokens (JObj large_workflow)
   \<and> map_of large_reduced ''pinData'' = None \<and> map_of large_reduced ''connections'' = None
   \<and> map_of large_reduced ''settings'' = None \<and> map_of large_reduced ''staticData'' = None
   \<and> map_of large_reduced ''active'' = map_of large_workflow ''active''
   \<and> map_of large_reduced ''nodes'' = Some (JArr [reduced_node large_node])
   \<and> map (\<lambda>k. map_of (whitelisted (node_params large_node)) k)
        [''text'', ''systemPrompt'', ''operation'', ''table'', ''query'', ''model'',
         ''temperature''] =
       [Some (JStr ''hello''), Some (JStr ''be brief''), Some (JStr ''chat''),
        Some (JStr ''orders''), Some (JStr ''select 1''), None, None]"
proof -
  have params: "node_params large_node =
      [(''model'', JStr ''gpt-4''), (''text'', JStr ''hello''),
       (''systemPrompt'', JStr ''be brief''), (''operation'', JStr ''chat''),
       (''table'', JStr ''orders''), (''query'', JStr ''select 1''),
       (''temperature'', JInt 1)]"
    by (simp add: node_params_def node_field_def large_node_def dict_get_def)
  note frame = reduction_frame [OF red_large est_large]
  from frame [of "''active''" "node_params large_node" "''text''"]
    frame [of "''active''" "node_params large_node" "''systemPrompt''"]
    frame [of "''active''" "node_params large_node" "''operation''"]
    frame [of "''active''" "node_params large_node" "''table''"]
    frame [of "''active''" "node_params large_node" "''query''"]
    frame [of "''active''" "node_params large_node" "''model''"]
    frame [of "''active''" "node_params large_node" "''temperature''"]
    red_large est_large
  show ?thesis
    by (simp add: params)
qed

section \<open>Properties of the completion client\<close>


lemma attempt_saves:
  "complete w (calls fx) req = Inr s \<Longrightarrow> write_error w (calls fx @ [req]) (output_path p) = None \<Longrightarrow>
   attempt w p req fx =
     (Inr s, \<lparr>calls = calls fx @ [req], writes = writes fx @ [(output_path p, utf8 s)]\<rparr>)"
  by (simp add: attempt_def)

lemma attempt_calls: "calls (snd (attempt w p req fx)) = calls fx @ [req]"
  by (simp add: attempt_def Let_def split: sum.splits option.splits write_failure.splits)

lemma attempt_Inr:
  "fst (attempt w p req fx) = Inr s \<Longrightarrow>
   attempt w p req fx =
     (Inr s, \<lparr>calls = calls fx @ [req], writes = writes fx @ [(output_path p, utf8 s)]\<rparr>)
   \<and> complete w (calls fx) req = Inr s"
  by (auto simp: attempt_def Let_def split: sum.splits option.splits write_failure.splits)

lemma file_content_last: "file_content (ws @ [(path, bytes)]) path = Some bytes"
  by (simp add: file_content_def)

lemma components_no_slash: "c \<in> set (components p) \<Longrightarrow> CHR ''/'' \<notin> set c"
  by (induction p arbitrary: c) (auto split: if_splits list.splits)

lemma path_stem_no_slash: "CHR ''/'' \<notin> set (path_stem p)"
proof -
  have name: "CHR ''/'' \<notin> set (path_name p)"
  proof (cases "path_parts p")
    case Nil
    then show ?thesis by (simp add: path_name_def)
  next
    case (Cons c cs)
    then have "last (c # cs) \<in> set (path_parts p)"
      by (metis last_in_set list.distinct(1))
    then have "last (c # cs) \<in> set (components p)"
      by (simp add: path_parts_def)
    from components_no_slash [OF this] Cons show ?thesis
      by (simp add: path_name_def)
  qed
  then show ?thesis
    by (auto simp: path_stem_def Let_def dest: in_set_takeD)
qed

lemma summarize_ready:
  "reaches_client w p workflow a sw \<Longrightarrow>
   summarize_workflow w p model = complete_with_fallback w p model a sw"
  by (auto simp: reaches_client_def summarize_workflow_def)

lemma fallback_nodes_list:
  assumes "size_reducer workflow items = Inr sw"
    and "dict_get workflow ''nodes'' (JArr []) = JArr items"
  shows "fallback_nodes sw = Inr (JArr (fallback_node_list workflow items))"
proof (cases "12000 < estimated_tokens (JObj workflow)")
  case True
  with assms have "simplify_workflow workflow items = Inr sw"
    by (simp add: size_reducer_def)
  note sw = simplify_workflow_filter [OF this]
  have "''nodes'' \<notin> set keys_to_remove" by (simp add: keys_to_remove_def)
  then have "map_of sw ''nodes'' = Some (JArr (map reduced_node items))"
    by (simp add: sw map_of_filter_keys [of "\<lambda>k. k \<notin> set keys_to_remove"] map_of_dict_set)
  with True show ?thesis
    by (simp add: fallback_nodes_def dict_get_def py_len_def py_slice_def and_then_def
        fallback_node_list_def min_def)
next
  case False
  with assms have "sw = workflow" by (simp add: size_reducer_def)
  with False assms(2) show ?thesis
    by (simp add: fallback_nodes_def py_len_def py_slice_def and_then_def
        fallback_node_list_def min_def)
qed

lemma cwf_primary_fails_fallback_model:
  "fst (attempt w p (primary_request model a (JObj sw) (now w)) no_effects) = Inl msg \<Longrightarrow>
   model = fallback_model \<Longrightarrow>
   complete_with_fallback w p model a sw =
     (Inr (''Error calling OpenAI API: '' @ msg),
      snd (attempt w p (primary_request model a (JObj sw) (now w)) no_effects))"
  by (cases "attempt w p (primary_request model a (JObj sw) (now w)) no_effects")
     (simp add: complete_with_fallback_def)

lemma cwf_primary_fails:
  "fst (attempt w p (primary_request model a (JObj sw) (now w)) no_effects) = Inl msg \<Longrightarrow>
   model \<noteq> fallback_model \<Longrightarrow> fallback_nodes sw = Inr ns \<Longrightarrow>
   complete_with_fallback w p model a sw =
     (case attempt w p (fallback_request a ns (now w))
             (snd (attempt w p (primary_request model a (JObj sw) (now w)) no_effects)) of
        (Inr summary, fx') \<Rightarrow> (Inr summary, fx')
      | (Inl fallback_error, fx') \<Rightarrow>
          (Inr (''Error with fallback model: '' @ fallback_error), fx'))"
  by (cases "attempt w p (primary_request model a (JObj sw) (now w)) no_effects")
     (simp add: complete_with_fallback_def)

lemma cwf_calls_after_failure:
  assumes "fst (attempt w p (primary_request model a (JObj sw) (now w)) no_effects) = Inl msg"
    and "model \<noteq> fallback_model" and "fallback_nodes sw = Inr ns"
  shows "calls (snd (complete_with_fallback w p model a sw)) =
           [primary_request model a (JObj sw) (now w), fallback_request a ns (now w)]"
  by (cases "fst (attempt w p (fallback_request a ns (now w))
                (snd (attempt w p (primary_request model a (JObj sw) (now w)) no_effects)))")
     (simp_all add: cwf_primary_fails [OF assms] case_prod_beta attempt_calls no_effects_def)

lemma cwf_primary_ok:
  "fst (attempt w p (primary_request model a (JObj sw) (now w)) no_effects) = Inr s \<Longrightarrow>
   complete_with_fallback w p model a sw =
     (Inr s, \<lparr>calls = [primary_request model a (JObj sw) (now w)],
              writes = [(output_path p, utf8 s)]\<rparr>)"
  by (drule attempt_Inr) (simp add: complete_with_fallback_def no_effects_def)

lemma cwf_nodes_raise:
  "fst (attempt w p (primary_request model a (JObj sw) (now w)) no_effects) = Inl msg \<Longrightarrow>
   model \<noteq> fallback_model \<Longrightarrow> fallback_nodes sw = Inl e \<Longrightarrow>
   complete_with_fallback w p model a sw =
     (Inl e, snd (attempt w p (primary_request model a (JObj sw) (now w)) no_effects))"
  by (cases "attempt w p (primary_request model a (JObj sw) (now w)) no_effects")
     (simp add: complete_with_fallback_def)

lemma cwf_outcomes:
  fixes w p model a sw
  defines "P \<equiv> primary_request model a (JObj sw) (now w)"
  defines "R \<equiv> complete_with_fallback w p model a sw"
  shows "(\<exists>s. fst R = Inr s \<and> calls (snd R) = [P]
              \<and> writes (snd R) = [(output_path p, utf8 s)] \<and> complete w [] P = Inr s)
       \<or> (\<exists>msg. model = fallback_model
              \<and> fst R = Inr (''Error calling OpenAI API: '' @ msg) \<and> calls (snd R) = [P])
       \<or> (\<exists>e. model \<noteq> fallback_model \<and> fst R = Inl e \<and> calls (snd R) = [P])
       \<or> (\<exists>ns s. model \<noteq> fallback_model \<and> fst R = Inr s
              \<and> calls (snd R) = [P, fallback_request a ns (now w)]
              \<and> file_content (writes (snd R)) (output_path p) = Some (utf8 s)
              \<and> complete w [P] (fallback_request a ns (now w)) = Inr s)
       \<or> (\<exists>ns fmsg. model \<noteq> fallback_model
              \<and> fst R = Inr (''Error with fallback model: '' @ fmsg)
              \<and> calls (snd R) = [P, fallback_request a ns (now w)])"
proof (cases "fst (attempt w p P no_effects)")
  case (Inr s)
  from attempt_Inr [OF this] cwf_primary_ok [of w p model a sw s] Inr
  show ?thesis by (simp add: P_def R_def no_effects_def)
next
  case (Inl msg)
  note failed = Inl [unfolded P_def]
  have first: "calls (snd (attempt w p P no_effects)) = [P]"
    by (simp add: attempt_calls no_effects_def)
  show ?thesis
  proof (cases "model = fallback_model")
    case True
    from cwf_primary_fails_fallback_model [OF failed True] True first
    show ?thesis by (simp add: P_def R_def)
  next
    case False
    show ?thesis
    proof (cases "fallback_nodes sw")
      case (Inl e)
      from cwf_nodes_raise [OF failed False Inl] False first
      show ?thesis by (simp add: P_def R_def)
    next
      case (Inr ns)
      note unfold = cwf_primary_fails [OF failed False Inr]
      note two = cwf_calls_after_failure [OF failed False Inr]
      let ?fx = "snd (attempt w p P no_effects)"
      show ?thesis
      proof (cases "fst (attempt w p (fallback_request a ns (now w)) ?fx)")
        case (Inl fmsg)
        with unfold have "fst R = Inr (''Error with fallback model: '' @ fmsg)"
          by (simp add: P_def R_def case_prod_beta)
        with two False show ?thesis
          unfolding P_def R_def by blast
      next
        case (Inr s)
        from attempt_Inr [OF this] unfold first
        have "fst R = Inr s
              \<and> file_content (writes (snd R)) (output_path p) = Some (utf8 s)
              \<and> complete w [P] (fallback_request a ns (now w)) = Inr s"
          by (simp add: P_def R_def file_content_last)
        with two False show ?thesis
          unfolding P_def R_def by blast
      qed
    qed
  qed
qed

lemma cwf_first_call:
  "take 1 (calls (snd (complete_with_fallback w p model a sw))) =
     [primary_request model a (JObj sw) (now w)]"
  using cwf_outcomes [of w p model a sw] by auto

lemma cwf_rerun:
  assumes "complete w1 = (\<lambda>earlier req. answer (length earlier))"
    and "complete w2 = (\<lambda>earlier req. answer (length earlier))"
    and "write_error w1 = (\<lambda>earlier path. wr (length earlier) path)"
    and "write_error w2 = (\<lambda>earlier path. wr (length earlier) path)"
  shows "fst (complete_with_fallback w1 p model a sw) = fst (complete_with_fallback w2 p model a sw)
       \<and> writes (snd (complete_with_fallback w1 p model a sw)) =
           writes (snd (complete_with_fallback w2 p model a sw))
       \<and> map (with_timestamp t) (calls (snd (complete_with_fallback w1 p model a sw))) =
           map (with_timestamp t) (calls (snd (complete_with_fallback w2 p model a sw)))"
  using assms
  by (cases "answer 0"; cases "wr (Suc 0) (output_path p)"; cases "fallback_nodes sw";
      cases "answer (Suc 0)"; cases "wr (Suc (Suc 0)) (output_path p)")
     (simp_all add: complete_with_fallback_def attempt_def Let_def no_effects_def
        with_timestamp_def primary_request_def fallback_request_def
        split: write_failure.splits)

lemma analyse_dict: "analyse doc = Inr a \<Longrightarrow> \<exists>workflow. doc = JObj workflow"
  by (cases doc) (auto simp: analyse_def and_then_def py_get_def)

lemma summarize_load_raises:
  "load_workflow w p = Inl e \<Longrightarrow> summarize_workflow w p model = (Inl e, no_effects)"
  by (simp add: summarize_workflow_def)

lemma summarize_analyse_raises:
  "load_workflow w p = Inr doc \<Longrightarrow> analyse doc = Inl e \<Longrightarrow>
   summarize_workflow w p model = (Inl e, no_effects)"
  by (simp add: summarize_workflow_def)

lemma summarize_no_key:
  "load_workflow w p = Inr doc \<Longrightarrow> analyse doc = Inr a \<Longrightarrow>
   api_key w = None \<or> api_key w = Some [] \<Longrightarrow>
   summarize_workflow w p model =
     (Inr ''OPENAI_API_KEY environment variable not set'', no_effects)"
  by (auto simp: summarize_workflow_def)

lemma summarize_reducer_raises:
  "load_workflow w p = Inr (JObj workflow) \<Longrightarrow> analyse (JObj workflow) = Inr a \<Longrightarrow>
   \<not> (api_key w = None \<or> api_key w = Some []) \<Longrightarrow>
   size_reducer workflow (node_items a) = Inl e \<Longrightarrow>
   summarize_workflow w p model = (Inl e, no_effects)"
  by (simp add: summarize_workflow_def)

section \<open>The example runs\<close>

lemma now_stub: "now (stub_world doc x y) = ''2024-05-01 12:00:00''"
  by (simp add: stub_world_def)

lemma small_ready:
  "reaches_client (stub_world (JObj small_workflow) x y) p small_workflow small_analysis small_workflow"
proof -
  have "analyse (JObj small_workflow) = Inr small_analysis" by code_simp
  moreover have "size_reducer small_workflow [full_node] = Inr small_workflow" by code_simp
  ultimately show ?thesis
    by (simp add: reaches_client_def stub_world_def small_analysis_def)
qed

lemma many_ready:
  "reaches_client (stub_world (JObj many_workflow) x y) p many_workflow many_analysis many_workflow"
proof -
  have "analyse (JObj many_workflow) = Inr many_analysis" by code_simp
  moreover have "size_reducer many_workflow (replicate 21 full_node) = Inr many_workflow"
    by code_simp
  ultimately show ?thesis
    by (simp add: reaches_client_def stub_world_def many_analysis_def)
qed

lemma large_ready:
  "reaches_client (stub_world (JObj large_workflow) x y) p large_workflow large_analysis large_reduced"
proof -
  have c: "count_types [large_node] [] = Inr [(JStr ''openAi'', Suc 0)]" by code_simp
  have ai: "ai_nodes [(JStr ''openAi'', Suc 0)] = Inr (Suc 0)" by code_simp
  have db: "db_nodes [(JStr ''openAi'', Suc 0)] = Inr 0" by code_simp
  have ex: "extract_prompts [large_node] [] [] = Inr ([], [])" by code_simp
  have g1: "py_get (JObj large_workflow) ''name'' (JStr ''Untitled Workflow'') = Inr (JStr large_name)"
    by (simp add: py_get_def dict_get_def large_workflow_def)
  have g2: "py_get (JObj large_workflow) ''nodes'' (JArr []) = Inr (JArr [large_node])"
    by (simp add: py_get_def dict_get_def large_workflow_def)
  have "analyse (JObj large_workflow) = Inr large_analysis"
    unfolding analyse_def g1 g2
    by (simp add: and_then_def py_len_def py_iter_def c ai db ex large_analysis_def
        del: count_types.simps extract_prompts.simps)
  with red_large show ?thesis
    by (simp add: reaches_client_def stub_world_def large_analysis_def)
qed

lemma length_boundary: "length (json_dumps (JObj boundary_workflow)) = 48001"
  by (simp add: boundary_workflow_def boundary_name_def dumps_str_def escape_plain escape_char_def)

lemma boundary_ready:
  "reaches_client (stub_world (JObj boundary_workflow) x y) p
     boundary_workflow boundary_analysis boundary_workflow"
proof -
  have "analyse (JObj boundary_workflow) = Inr boundary_analysis"
    by (simp add: analyse_def and_then_def boundary_workflow_def py_get_def dict_get_def
        py_len_def py_iter_def ai_nodes_def db_nodes_def boundary_analysis_def)
  moreover have "estimated_tokens (JObj boundary_workflow) = 12000"
    by (simp only: estimated_tokens_def length_boundary)
  ultimately show ?thesis
    by (simp add: reaches_client_def stub_world_def boundary_analysis_def size_reducer_def)
qed

section \<open>The fallback protocol\<close>




text \<open>
  C6, amended. When the primary attempt fails with a model that is not the fallback model
  (on a document whose nodes are a list), two calls are made and the nodes in the
  fallback payload are the first 20 nodes of the document after the size reducer: reduced
  to name, type, whitelisted parameters and position when the estimate was above 12000,
  and the original nodes, unchanged, when it was not.
\<close>

theorem payload_of_fallback:
  assumes ready: "reaches_client w p workflow a sw"
    and nodes: "dict_get workflow ''nodes'' (JArr []) = JArr (node_items a)"
    and failed: "fst (attempt w p (primary_request model a (JObj sw) (now w)) no_effects) = Inl msg"
    and model: "model \<noteq> fallback_model"
  shows "length (calls (snd (summarize_workflow w p model))) = 2
       \<and> fallback_payload_nodes (calls (snd (summarize_workflow w p model)) ! 1) =
           JArr (take 20 (if 12000 < estimated_tokens (JObj workflow)
                          then map reduced_node (node_items a) else node_items a))"
proof -
  from ready have "size_reducer workflow (node_items a) = Inr sw"
    by (simp add: reaches_client_def)
  note fb = fallback_nodes_list [OF this nodes]
  from cwf_calls_after_failure [OF failed model fb] show ?thesis
    by (simp add: summarize_ready [OF ready] fallback_payload_nodes_def fallback_request_def
        fallback_node_list_def)
qed

theorem payload_of_fallback_witness:
  "fallback_payload_nodes
     (calls (snd (summarize_workflow
        (stub_world (JObj large_workflow) (Inl ''boom'') (Inr ''# Summary''))
        ''wf.json'' ''gpt-4o'')) ! 1) = JArr [reduced_node large_node]
   \<and> fallback_payload_nodes
     (calls (snd (summarize_workflow
        (stub_world (JObj many_workflow) (Inl ''boom'') (Inr ''# Summary''))
        ''wf.json'' ''gpt-4o'')) ! 1) = JArr (replicate 20 full_node)"
proof -
  let ?L = "stub_world (JObj large_workflow) (Inl ''boom'') (Inr ''# Summary'')"
  let ?M = "stub_world (JObj many_workflow) (Inl ''boom'') (Inr ''# Summary'')"
  have l1: "dict_get large_workflow ''nodes'' (JArr []) = JArr (node_items large_analysis)"
    by (simp add: dict_get_def large_workflow_def large_analysis_def)
  have l2: "fst (attempt ?L ''wf.json''
       (primary_request ''gpt-4o'' large_analysis (JObj large_reduced) (now ?L)) no_effects)
       = Inl ''boom''"
    by (simp add: attempt_def stub_world_def no_effects_def)
  have m1: "dict_get many_workflow ''nodes'' (JArr []) = JArr (node_items many_analysis)"
    by (simp add: dict_get_def many_workflow_def many_analysis_def)
  have m2: "fst (attempt ?M ''wf.json''
       (primary_request ''gpt-4o'' many_analysis (JObj many_workflow) (now ?M)) no_effects)
       = Inl ''boom''"
    by (simp add: attempt_def stub_world_def no_effects_def)
  have model: "''gpt-4o'' \<noteq> fallback_model"
    by (simp add: fallback_model_def)
  have small: "\<not> 12000 < estimated_tokens (JObj many_workflow)"
    by code_simp
  have items: "take 20 (node_items many_analysis) = replicate 20 full_node"
    by code_simp
  from payload_of_fallback [OF large_ready l1 l2 model] payload_of_fallback [OF many_ready m1 m2 model]
    est_large small items
  show ?thesis
    by (simp add: large_analysis_def)
qed

text \<open>
  Against C6 as stated: on a small document the node in the fallback payload is the
  original node, which differs from its reduction.
\<close>

theorem payload_not_reduced:
  "fallback_payload_nodes
     (calls (snd (summarize_workflow
        (stub_world (JObj small_workflow) (Inl ''boom'') (Inr ''# Summary''))
        ''wf.json'' ''gpt-4o'')) ! 1) = JArr [full_node]
   \<and> simplify_node full_node \<noteq> Inr full_node"
  by code_simp

section \<open>The threshold of the size reducer\<close>

text \<open>
  C2, amended. In an invocation that reaches the completion client, the document in the
  primary prompt is the document after the size reducer. It is the loaded document,
  unchanged, when the estimate (the length of the serialisation divided by 4, rounded
  down) is at most 12000, that is when the serialisation has at most 48003 characters; it
  is the reduced document when the estimate is above 12000, that is from 48004 characters
  on.
\<close>

theorem reduction_threshold:
  assumes "reaches_client w p workflow a sw"
  shows "take 1 (calls (snd (summarize_workflow w p model))) =
           [primary_request model a (JObj sw) (now w)]
       \<and> (estimated_tokens (JObj workflow) \<le> 12000 \<longrightarrow> sw = workflow)
       \<and> (12000 < estimated_tokens (JObj workflow) \<longrightarrow>
            simplify_workflow workflow (node_items a) = Inr sw)
       \<and> (length (json_dumps (JObj workflow)) \<le> 48003 \<longrightarrow> sw = workflow)
       \<and> (48004 \<le> length (json_dumps (JObj workflow)) \<longrightarrow>
            simplify_workflow workflow (node_items a) = Inr sw)"
proof -
  have low: "estimated_tokens (JObj workflow) \<le> 12000"
    if "length (json_dumps (JObj workflow)) \<le> 48003"
    using that unfolding estimated_tokens_def by arith
  have high: "12000 < estimated_tokens (JObj workflow)"
    if "48004 \<le> length (json_dumps (JObj workflow))"
    using that unfolding estimated_tokens_def by arith
  from assms have red: "size_reducer workflow (node_items a) = Inr sw"
    by (simp add: reaches_client_def)
  have unchanged: "sw = workflow" if "estimated_tokens (JObj workflow) \<le> 12000"
    using red that by (simp add: size_reducer_def)
  have reduced: "simplify_workflow workflow (node_items a) = Inr sw"
    if "12000 < estimated_tokens (JObj workflow)"
    using red that by (simp add: size_reducer_def)
  have "take 1 (calls (snd (summarize_workflow w p model))) =
          [primary_request model a (JObj sw) (now w)]"
    by (simp only: summarize_ready [OF assms] cwf_first_call)
  with low high unchanged reduced show ?thesis by blast
qed

theorem reduction_threshold_witness:
  "take 1 (calls (snd (summarize_workflow
      (stub_world (JObj boundary_workflow) (Inr ''# Summary'') (Inl ''down''))
      ''wf.json'' ''gpt-4o''))) =
     [primary_request ''gpt-4o'' boundary_analysis (JObj boundary_workflow)
        ''2024-05-01 12:00:00'']
   \<and> estimated_tokens (JObj boundary_workflow) \<le> 12000
   \<and> take 1 (calls (snd (summarize_workflow
      (stub_world (JObj large_workflow) (Inr ''# Summary'') (Inl ''down''))
      ''wf.json'' ''gpt-4o''))) =
     [primary_request ''gpt-4o'' large_analysis (JObj large_reduced) ''2024-05-01 12:00:00'']
   \<and> 12000 < estimated_tokens (JObj large_workflow)
   \<and> simplify_workflow large_workflow (node_items large_analysis) = Inr large_reduced"
proof -
  have "estimated_tokens (JObj boundary_workflow) = 12000"
    by (simp only: estimated_tokens_def length_boundary)
  with reduction_threshold [OF boundary_ready, of "Inr ''# Summary''" "Inl ''down''" "''wf.json''" "''gpt-4o''"]
    reduction_threshold [OF large_ready, of "Inr ''# Summary''" "Inl ''down''" "''wf.json''" "''gpt-4o''"]
    est_large
  show ?thesis
    by (simp add: now_stub)
qed

text \<open>
  Against C2 as stated: a document of 48001 characters, just over the boundary of 48000,
  has the estimate 12000 and is passed on unchanged, with its \<^verbatim>\<open>settings\<close> key, although
  the reduction would remove that key.
\<close>

theorem boundary_not_reduced:
  "length (json_dumps (JObj boundary_workflow)) = 48001
   \<and> estimated_tokens (JObj boundary_workflow) = 12000
   \<and> size_reducer boundary_workflow [] = Inr boundary_workflow
   \<and> map_of boundary_workflow ''settings'' = Some (JObj [])
   \<and> simplify_workflow boundary_workflow [] =
       Inr [(''name'', JStr boundary_name), (''nodes'', JArr [])]"
proof -
  have est: "estimated_tokens (JObj boundary_workflow) = 12000"
    by (simp only: estimated_tokens_def length_boundary)
  have "simplify_workflow boundary_workflow [] =
          Inr [(''name'', JStr boundary_name), (''nodes'', JArr [])]"
    by (simp add: simplify_workflow_def and_then_def boundary_workflow_def keys_to_remove_def
        dict_del_def)
  with est length_boundary show ?thesis
    by (simp add: size_reducer_def boundary_workflow_def)
qed

section \<open>Results and errors of the operation\<close>

text \<open>
  C7, amended. In an invocation that reaches the completion client, when the primary call
  returns a text and the file can be written, or when the primary attempt fails, the
  model is not the fallback model and the fallback call returns a text and the file can be
  written, the operation returns exactly that text, and the file whose path is the stem of
  the input path followed by \<^verbatim>\<open>_summary.md\<close> holds the UTF-8 encoding of exactly that
  text. This path is a bare file name: it has no directory part.
\<close>

theorem summary_saved:
  assumes ready: "reaches_client w p workflow a sw"
  shows "(complete w [] (primary_request model a (JObj sw) (now w)) = Inr s
          \<and> write_error w [primary_request model a (JObj sw) (now w)] (output_path p) = None \<longrightarrow>
            summarize_workflow w p model =
              (Inr s, \<lparr>calls = [primary_request model a (JObj sw) (now w)],
                       writes = [(path_stem p @ ''_summary.md'', utf8 s)]\<rparr>))
       \<and> (fst (attempt w p (primary_request model a (JObj sw) (now w)) no_effects) = Inl msg
          \<and> model \<noteq> fallback_model \<and> fallback_nodes sw = Inr ns
          \<and> complete w [primary_request model a (JObj sw) (now w)]
                (fallback_request a ns (now w)) = Inr s
          \<and> write_error w [primary_request model a (JObj sw) (now w),
                            fallback_request a ns (now w)] (output_path p) = None \<longrightarrow>
            fst (summarize_workflow w p model) = Inr s
            \<and> calls (snd (summarize_workflow w p model)) =
                [primary_request model a (JObj sw) (now w), fallback_request a ns (now w)]
            \<and> file_content (writes (snd (summarize_workflow w p model)))
                (path_stem p @ ''_summary.md'') = Some (utf8 s))
       \<and> CHR ''/'' \<notin> set (path_stem p @ ''_summary.md'')"
proof -
  let ?P = "primary_request model a (JObj sw) (now w)"
  let ?fx = "snd (attempt w p ?P no_effects)"
  note run = summarize_ready [OF ready, of model]
  have first: "summarize_workflow w p model =
      (Inr s, \<lparr>calls = [?P], writes = [(path_stem p @ ''_summary.md'', utf8 s)]\<rparr>)"
    if "complete w [] ?P = Inr s" and "write_error w [?P] (output_path p) = None"
    using attempt_saves [of w no_effects ?P s p] that
    by (simp add: run complete_with_fallback_def no_effects_def output_path_def)
  have second: "fst (summarize_workflow w p model) = Inr s
      \<and> calls (snd (summarize_workflow w p model)) = [?P, fallback_request a ns (now w)]
      \<and> file_content (writes (snd (summarize_workflow w p model)))
          (path_stem p @ ''_summary.md'') = Some (utf8 s)"
    if failed: "fst (attempt w p ?P no_effects) = Inl msg"
      and model: "model \<noteq> fallback_model" and ns: "fallback_nodes sw = Inr ns"
      and answer: "complete w [?P] (fallback_request a ns (now w)) = Inr s"
      and wr: "write_error w [?P, fallback_request a ns (now w)] (output_path p) = None"
  proof -
    have one: "calls ?fx = [?P]"
      by (simp add: attempt_calls no_effects_def)
    from attempt_saves [of w ?fx "fallback_request a ns (now w)" s p] answer wr one
    have "attempt w p (fallback_request a ns (now w)) ?fx =
            (Inr s, \<lparr>calls = [?P, fallback_request a ns (now w)],
                     writes = writes ?fx @ [(output_path p, utf8 s)]\<rparr>)"
      by simp
    then have "fst (summarize_workflow w p model) = Inr s
      \<and> calls (snd (summarize_workflow w p model)) = [?P, fallback_request a ns (now w)]
      \<and> file_content (writes (snd (summarize_workflow w p model))) (output_path p)
          = Some (utf8 s)"
      by (simp add: run cwf_primary_fails [OF failed model ns] file_content_last)
    then show ?thesis
      by (simp add: output_path_def)
  qed
  have bare: "CHR ''/'' \<notin> set (path_stem p @ ''_summary.md'')"
    by (simp add: path_stem_no_slash)
  from first second bare show ?thesis by blast
qed

theorem summary_saved_witness:
  "summarize_workflow (stub_world (JObj small_workflow) (Inr accent_summary) (Inl ''down''))
      ''flows/orders.json'' ''gpt-4o'' =
     (Inr accent_summary,
      \<lparr>calls = [primary_request ''gpt-4o'' small_analysis (JObj small_workflow)
                  ''2024-05-01 12:00:00''],
       writes = [(''orders_summary.md'', [CHR ''#'', CHR '' '', CHR 0xC3, CHR 0xA9])]\<rparr>)
   \<and> fst (summarize_workflow (stub_world (JObj small_workflow) (Inl ''boom'') (Inr ''# Short''))
      ''flows/orders.json'' ''gpt-4o'') = Inr ''# Short''
   \<and> file_content
        (writes (snd (summarize_workflow
           (stub_world (JObj small_workflow) (Inl ''boom'') (Inr ''# Short''))
           ''flows/orders.json'' ''gpt-4o''))) ''orders_summary.md'' = Some ''# Short''"
proof -
  let ?A = "stub_world (JObj small_workflow) (Inr accent_summary) (Inl ''down'')"
  let ?B = "stub_world (JObj small_workflow) (Inl ''boom'') (Inr ''# Short'')"
  let ?P = "primary_request ''gpt-4o'' small_analysis (JObj small_workflow) ''2024-05-01 12:00:00''"
  let ?F = "fallback_request small_analysis (JArr [full_node]) ''2024-05-01 12:00:00''"
  have stem: "path_stem ''flows/orders.json'' = ''orders''"
    by code_simp
  have bytes: "utf8 accent_summary = [CHR ''#'', CHR '' '', CHR 0xC3, CHR 0xA9]"
    and plain: "utf8 ''# Short'' = ''# Short''"
    by code_simp+
  have a: "complete ?A [] ?P = Inr accent_summary
           \<and> write_error ?A [?P] (output_path ''flows/orders.json'') = None"
    by (simp add: stub_world_def)
  have b: "fst (attempt ?B ''flows/orders.json'' ?P no_effects) = Inl ''boom''
           \<and> ''gpt-4o'' \<noteq> fallback_model \<and> fallback_nodes small_workflow = Inr (JArr [full_node])
           \<and> complete ?B [?P] ?F = Inr ''# Short''
           \<and> write_error ?B [?P, ?F] (output_path ''flows/orders.json'') = None"
    by (simp add: attempt_def stub_world_def no_effects_def fallback_model_def fallback_nodes_def
        small_workflow_def dict_get_def py_len_def py_slice_def and_then_def)
  from summary_saved [where model = "''gpt-4o''" and s = accent_summary,
      OF small_ready [of "Inr accent_summary" "Inl ''down''" "''flows/orders.json''"]]
    summary_saved [where model = "''gpt-4o''" and s = "''# Short''" and msg = "''boom''"
      and ns = "JArr [full_node]",
      OF small_ready [of "Inl ''boom''" "Inr ''# Short''" "''flows/orders.json''"]]
    a b
  show ?thesis
    by (simp add: now_stub stem bytes plain)
qed

text \<open>
  Against C7 as stated: for the input \<^verbatim>\<open>data/wf.json\<close> the summary goes to
  \<^verbatim>\<open>wf_summary.md\<close> in the working directory, which is no sibling of the input file.
\<close>

theorem summary_not_sibling:
  "writes (snd (summarize_workflow
      (stub_world (JObj small_workflow) (Inr ''# Summary'') (Inl ''down''))
      ''data/wf.json'' ''gpt-4o'')) = [(''wf_summary.md'', ''# Summary'')]
   \<and> \<not> sibling ''wf_summary.md'' ''data/wf.json''"
  by code_simp

text \<open>
  C8, amended. An exception of the loader or of the analysis propagates to the caller,
  whether or not the API key is set, since both run before the key is tested; so do an
  exception of the size reducer and one of the construction of the fallback payload. Once
  the document is loaded and analysed, a missing or empty API key gives the fixed message
  as a string, before any API call. A failure of the primary attempt gives a string when
  the requested model is the fallback model, and a failure of the fallback attempt gives a
  string. Every string that the operation returns is the missing-key message, the text
  whose encoding the summary file holds, or one of these two error texts.
\<close>

theorem error_strings:
  "(load_workflow w p = Inl e \<longrightarrow> summarize_workflow w p model = (Inl e, no_effects))
   \<and> (load_workflow w p = Inr doc \<and> analyse doc = Inl e \<longrightarrow>
        summarize_workflow w p model = (Inl e, no_effects))
   \<and> (load_workflow w p = Inr doc \<and> analyse doc = Inr a
        \<and> (api_key w = None \<or> api_key w = Some []) \<longrightarrow>
        summarize_workflow w p model =
          (Inr ''OPENAI_API_KEY environment variable not set'', no_effects))
   \<and> (load_workflow w p = Inr (JObj workflow) \<and> analyse (JObj workflow) = Inr a
        \<and> api_key w \<noteq> None \<and> api_key w \<noteq> Some []
        \<and> size_reducer workflow (node_items a) = Inl e \<longrightarrow>
        summarize_workflow w p model = (Inl e, no_effects))
   \<and> (reaches_client w p workflow a sw
        \<and> fst (attempt w p (primary_request model a (JObj sw) (now w)) no_effects) = Inl msg
        \<and> model = fallback_model \<longrightarrow>
        fst (summarize_workflow w p model) = Inr (''Error calling OpenAI API: '' @ msg))
   \<and> (reaches_client w p workflow a sw
        \<and> fst (attempt w p (primary_request model a (JObj sw) (now w)) no_effects) = Inl msg
        \<and> model \<noteq> fallback_model \<and> fallback_nodes sw = Inl e \<longrightarrow>
        fst (summarize_workflow w p model) = Inl e)
   \<and> (reaches_client w p workflow a sw
        \<and> fst (attempt w p (primary_request model a (JObj sw) (now w)) no_effects) = Inl msg
        \<and> model \<noteq> fallback_model \<and> fallback_nodes sw = Inr ns
        \<and> fst (attempt w p (fallback_request a ns (now w))
                 (snd (attempt w p (primary_request model a (JObj sw) (now w)) no_effects)))
            = Inl fmsg \<longrightarrow>
        fst (summarize_workflow w p model) = Inr (''Error with fallback model: '' @ fmsg))
   \<and> (fst (summarize_workflow w p model) = Inr s \<longrightarrow>
        ((api_key w = None \<or> api_key w = Some [])
           \<and> s = ''OPENAI_API_KEY environment variable not set'')
        \<or> file_content (writes (snd (summarize_workflow w p model))) (output_path p)
            = Some (utf8 s)
        \<or> (model = fallback_model \<and> (\<exists>msg. s = ''Error calling OpenAI API: '' @ msg))
        \<or> (model \<noteq> fallback_model \<and> (\<exists>fmsg. s = ''Error with fallback model: '' @ fmsg)))"
proof -
  have 1: "summarize_workflow w p model = (Inl e, no_effects)" if "load_workflow w p = Inl e"
    using that by (rule summarize_load_raises)
  have 2: "summarize_workflow w p model = (Inl e, no_effects)"
    if "load_workflow w p = Inr doc" "analyse doc = Inl e"
    using that by (rule summarize_analyse_raises)
  have 3: "summarize_workflow w p model =
             (Inr ''OPENAI_API_KEY environment variable not set'', no_effects)"
    if "load_workflow w p = Inr doc" "analyse doc = Inr a" "api_key w = None \<or> api_key w = Some []"
    using that by (rule summarize_no_key)
  have 4: "summarize_workflow w p model = (Inl e, no_effects)"
    if "load_workflow w p = Inr (JObj workflow)" "analyse (JObj workflow) = Inr a"
      "api_key w \<noteq> None" "api_key w \<noteq> Some []" "size_reducer workflow (node_items a) = Inl e"
    using that by (intro summarize_reducer_raises) auto
  have 5: "fst (summarize_workflow w p model) = Inr (''Error calling OpenAI API: '' @ msg)"
    if "reaches_client w p workflow a sw"
      "fst (attempt w p (primary_request model a (JObj sw) (now w)) no_effects) = Inl msg"
      "model = fallback_model"
    by (simp add: summarize_ready [OF that(1)] cwf_primary_fails_fallback_model [OF that(2,3)])
  have 6: "fst (summarize_workflow w p model) = Inl e"
    if "reaches_client w p workflow a sw"
      "fst (attempt w p (primary_request model a (JObj sw) (now w)) no_effects) = Inl msg"
      "model \<noteq> fallback_model" "fallback_nodes sw = Inl e"
    by (simp add: summarize_ready [OF that(1)] cwf_nodes_raise [OF that(2,3,4)])
  have 7: "fst (summarize_workflow w p model) = Inr (''Error with fallback model: '' @ fmsg)"
    if "reaches_client w p workflow a sw"
      "fst (attempt w p (primary_request model a (JObj sw) (now w)) no_effects) = Inl msg"
      "model \<noteq> fallback_model" "fallback_nodes sw = Inr ns"
      "fst (attempt w p (fallback_request a ns (now w))
              (snd (attempt w p (primary_request model a (JObj sw) (now w)) no_effects)))
         = Inl fmsg"
    using that(5)
    by (simp add: summarize_ready [OF that(1)] cwf_primary_fails [OF that(2,3,4)]
        case_prod_beta)
  have 8: "((api_key w = None \<or> api_key w = Some [])
             \<and> s = ''OPENAI_API_KEY environment variable not set'')
        \<or> file_content (writes (snd (summarize_workflow w p model))) (output_path p)
            = Some (utf8 s)
        \<or> (model = fallback_model \<and> (\<exists>msg. s = ''Error calling OpenAI API: '' @ msg))
        \<or> (model \<noteq> fallback_model \<and> (\<exists>fmsg. s = ''Error with fallback model: '' @ fmsg))"
    if ret: "fst (summarize_workflow w p model) = Inr s"
  proof (cases "load_workflow w p")
    case (Inl e')
    from summarize_load_raises [OF this, of model] ret show ?thesis by simp
  next
    case (Inr doc')
    show ?thesis
    proof (cases "analyse doc'")
      case (Inl e')
      from summarize_analyse_raises [OF Inr this, of model] ret show ?thesis by simp
    next
      case an: (Inr a')
      from analyse_dict [OF this] obtain workflow' where doc': "doc' = JObj workflow'" by blast
      show ?thesis
      proof (cases "api_key w = None \<or> api_key w = Some []")
        case True
        from summarize_no_key [OF Inr an this, of model] ret True show ?thesis by simp
      next
        case False
        show ?thesis
        proof (cases "size_reducer workflow' (node_items a')")
          case (Inl e')
          from summarize_reducer_raises [OF Inr [unfolded doc'] an [unfolded doc'] False this,
              of model] ret
          show ?thesis by simp
        next
          case red: (Inr sw')
          from Inr an False red doc' have "reaches_client w p workflow' a' sw'"
            by (simp add: reaches_client_def)
          note run = summarize_ready [OF this, of model]
          from cwf_outcomes [of w p model a' sw'] ret show ?thesis
            by (auto simp: run file_content_def)
        qed
      qed
    qed
  qed
  from 1 2 3 4 5 6 7 8 show ?thesis by blast
qed

theorem error_strings_witness:
  "summarize_workflow
      ((stub_world (JObj small_workflow) (Inr ''# Summary'') (Inl ''down''))\<lparr>api_key := None\<rparr>)
      ''wf.json'' ''gpt-4o'' =
     (Inr ''OPENAI_API_KEY environment variable not set'', no_effects)
   \<and> summarize_workflow
      ((stub_world JNull (Inr ''# Summary'') (Inl ''down''))
         \<lparr>load_workflow := (\<lambda>p. Inl (External ''No such file''))\<rparr>)
      ''wf.json'' ''gpt-4o'' = (Inl (External ''No such file''), no_effects)
   \<and> summarize_workflow
      ((stub_world (JArr []) (Inr ''# Summary'') (Inl ''down''))\<lparr>api_key := None\<rparr>)
      ''wf.json'' ''gpt-4o'' = (Inl AttributeError, no_effects)
   \<and> fst (summarize_workflow (stub_world (JObj small_workflow) (Inl ''boom'') (Inl ''down''))
      ''wf.json'' ''gpt-4o'') = Inr ''Error with fallback model: down''"
proof -
  let ?K = "(stub_world (JObj small_workflow) (Inr ''# Summary'') (Inl ''down''))\<lparr>api_key := None\<rparr>"
  let ?L = "(stub_world JNull (Inr ''# Summary'') (Inl ''down''))
              \<lparr>load_workflow := (\<lambda>p. Inl (External ''No such file''))\<rparr>"
  let ?T = "(stub_world (JArr []) (Inr ''# Summary'') (Inl ''down''))\<lparr>api_key := None\<rparr>"
  let ?W = "stub_world (JObj small_workflow) (Inl ''boom'') (Inl ''down'')"
  let ?P = "primary_request ''gpt-4o'' small_analysis (JObj small_workflow) (now ?W)"
  have an: "analyse (JObj small_workflow) = Inr small_analysis" by code_simp
  have k: "load_workflow ?K ''wf.json'' = Inr (JObj small_workflow)
           \<and> analyse (JObj small_workflow) = Inr small_analysis
           \<and> (api_key ?K = None \<or> api_key ?K = Some [])"
    by (simp add: stub_world_def an)
  have l: "load_workflow ?L ''wf.json'' = Inl (External ''No such file'')"
    by simp
  have t: "load_workflow ?T ''wf.json'' = Inr (JArr []) \<and> analyse (JArr []) = Inl AttributeError"
    by (simp add: stub_world_def analyse_def py_get_def and_then_def)
  have first: "attempt ?W ''wf.json'' ?P no_effects = (Inl ''boom'', \<lparr>calls = [?P], writes = []\<rparr>)"
    by (simp add: attempt_def stub_world_def no_effects_def)
  have w: "reaches_client ?W ''wf.json'' small_workflow small_analysis small_workflow
           \<and> fst (attempt ?W ''wf.json'' ?P no_effects) = Inl ''boom''
           \<and> ''gpt-4o'' \<noteq> fallback_model
           \<and> fallback_nodes small_workflow = Inr (JArr [full_node])
           \<and> fst (attempt ?W ''wf.json'' (fallback_request small_analysis (JArr [full_node]) (now ?W))
                   (snd (attempt ?W ''wf.json'' ?P no_effects))) = Inl ''down''"
    using small_ready [of "Inl ''boom''" "Inl ''down''" "''wf.json''"]
    unfolding first
    by (simp add: attempt_def stub_world_def fallback_model_def fallback_nodes_def
        small_workflow_def dict_get_def py_len_def py_slice_def and_then_def)
  from error_strings [where w = ?K and p = "''wf.json''" and model = "''gpt-4o''"
      and doc = "JObj small_workflow" and a = small_analysis]
    error_strings [where w = ?L and p = "''wf.json''" and model = "''gpt-4o''"
      and e = "External ''No such file''"]
    error_strings [where w = ?T and p = "''wf.json''" and model = "''gpt-4o''"
      and doc = "JArr []" and e = AttributeError]
    error_strings [where w = ?W and p = "''wf.json''" and model = "''gpt-4o''"
      and workflow = small_workflow and a = small_analysis and sw = small_workflow
      and msg = "''boom''" and ns = "JArr [full_node]" and fmsg = "''down''"]
    k l t w
  show ?thesis
    by simp
qed

text \<open>
  Against C8 as stated. With the API key set and the fallback model requested, a failing
  primary call is returned as a string after one call, which is neither of the two cases
  of the claim. And without the API key, a file that cannot be loaded makes the operation
  raise, as does a document that is a list: absence of the credential does not always
  give a string.
\<close>

theorem third_error_string:
  "summarize_workflow (stub_world (JObj small_workflow) (Inl ''boom'') (Inl ''down''))
      ''wf.json'' ''gpt-3.5-turbo-16k'' =
     (Inr ''Error calling OpenAI API: boom'',
      \<lparr>calls = [primary_request ''gpt-3.5-turbo-16k'' small_analysis (JObj small_workflow)
                  ''2024-05-01 12:00:00''],
       writes = []\<rparr>)
   \<and> api_key (stub_world (JObj small_workflow) (Inl ''boom'') (Inl ''down'')) = Some ''sk-test''
   \<and> fst (summarize_workflow
        ((stub_world JNull (Inl ''boom'') (Inl ''down''))
           \<lparr>load_workflow := (\<lambda>p. Inl (External ''No such file'')), api_key := None\<rparr>)
        ''missing.json'' ''gpt-4o'') = Inl (External ''No such file'')
   \<and> fst (summarize_workflow
        ((stub_world (JArr []) (Inl ''boom'') (Inl ''down''))\<lparr>api_key := None\<rparr>)
        ''list.json'' ''gpt-4o'') = Inl AttributeError"
  by code_simp

text \<open>
  C9. Two runs on the same path that load the same document, with the same API key, a
  completion stub and a file system that answer by the number of earlier calls only,
  return the same result, write the same files and make the same calls up to the
  timestamps in the prompts; so the histograms, the classification counts and the prompt
  sequences in the prompts agree.
\<close>

theorem rerun_identical:
  assumes "load_workflow w1 p = load_workflow w2 p"
    and "api_key w1 = api_key w2"
    and "complete w1 = (\<lambda>earlier req. answer (length earlier))"
    and "complete w2 = (\<lambda>earlier req. answer (length earlier))"
    and "write_error w1 = (\<lambda>earlier path. wr (length earlier) path)"
    and "write_error w2 = (\<lambda>earlier path. wr (length earlier) path)"
  shows "fst (summarize_workflow w1 p model) = fst (summarize_workflow w2 p model)
       \<and> writes (snd (summarize_workflow w1 p model)) = writes (snd (summarize_workflow w2 p model))
       \<and> map (with_timestamp t) (calls (snd (summarize_workflow w1 p model))) =
           map (with_timestamp t) (calls (snd (summarize_workflow w2 p model)))"
  using assms(1,2) cwf_rerun [OF assms(3-6)]
  by (auto simp: summarize_workflow_def split: sum.splits json.splits)

theorem rerun_identical_witness:
  "fst (summarize_workflow (stub_world (JObj small_workflow) (Inl ''boom'') (Inr ''# Short''))
          ''wf.json'' ''gpt-4o'') =
   fst (summarize_workflow
          ((stub_world (JObj small_workflow) (Inl ''boom'') (Inr ''# Short''))
             \<lparr>now := ''2024-05-02 08:30:00''\<rparr>) ''wf.json'' ''gpt-4o'')
   \<and> map (with_timestamp [])
        (calls (snd (summarize_workflow
           (stub_world (JObj small_workflow) (Inl ''boom'') (Inr ''# Short''))
           ''wf.json'' ''gpt-4o''))) =
     map (with_timestamp [])
        (calls (snd (summarize_workflow
           ((stub_world (JObj small_workflow) (Inl ''boom'') (Inr ''# Short''))
              \<lparr>now := ''2024-05-02 08:30:00''\<rparr>) ''wf.json'' ''gpt-4o'')))"
proof -
  let ?A = "stub_world (JObj small_workflow) (Inl ''boom'') (Inr ''# Short'')"
  let ?B = "?A\<lparr>now := ''2024-05-02 08:30:00''\<rparr>"
  let ?answer = "\<lambda>n::nat. if n = 0 then Inl ''boom'' else (Inr ''# Short'' :: string + string)"
  let ?wr = "\<lambda>(n::nat) (path::string). None :: write_failure option"
  have 1: "load_workflow ?A ''wf.json'' = load_workflow ?B ''wf.json''" by simp
  have 2: "api_key ?A = api_key ?B" by simp
  have 3: "complete ?A = (\<lambda>earlier req. ?answer (length earlier))"
    by (simp add: stub_world_def fun_eq_iff)
  have 4: "complete ?B = (\<lambda>earlier req. ?answer (length earlier))"
    by (simp add: stub_world_def fun_eq_iff)
  have 5: "write_error ?A = (\<lambda>earlier path. ?wr (length earlier) path)"
    by (simp add: stub_world_def)
  have 6: "write_error ?B = (\<lambda>earlier path. ?wr (length earlier) path)"
    by (simp add: stub_world_def)
  from rerun_identical [OF 1 2 3 4 5 6, of "''gpt-4o''" "[]"] show ?thesis
    by simp
qed

end
